theory Spec2Isabelle
  imports Complex_Main
begin

section \<open>Zero-of-Functions solver: data model\<close>

text \<open>
  The two front ends (\<^verbatim>\<open>app.py\<close> and \<^verbatim>\<open>ZOF_CLI.py\<close>) carry the same six root-finding
  loops over the same \<^verbatim>\<open>safe_eval\<close>; the functions of \<^verbatim>\<open>app.py\<close> are the ones embedded.

  Every failure of the solver is a Python exception. The solver raises \<^verbatim>\<open>ValueError\<close>
  with one of four kinds of message, which are kept apart here under the names the
  specification gives them:
  \<^item> \<open>EvaluationError\<close>: \<^verbatim>\<open>"Error evaluating expression: ..."\<close> (raised by \<^verbatim>\<open>safe_eval\<close>);
  \<^item> \<open>PreconditionError\<close>: \<^verbatim>\<open>"f(a) and f(b) must have opposite signs"\<close>;
  \<^item> \<open>SingularityError\<close>: \<^verbatim>\<open>"Division by zero in secant method"\<close>,
    \<^verbatim>\<open>"Derivative too close to zero"\<close>, \<^verbatim>\<open>"Division by zero in modified secant method"\<close>;
  \<^item> \<open>ConvergenceError\<close>: \<^verbatim>\<open>"Maximum iterations reached without convergence"\<close>.

  \<open>ZeroDivisionError\<close> is Python's own exception, raised by the operator \<^verbatim>\<open>/\<close> when its
  divisor is zero.
\<close>

datatype error =
    EvaluationError
  | PreconditionError
  | SingularityError
  | ConvergenceError
  | ZeroDivisionError

subsection \<open>Numbers\<close>

text \<open>
  The solver computes with Python floats. The six methods are embedded over a type \<open>'n\<close> of
  numbers and the operations that the code applies to them, so that what is proved of a method
  holds whatever these operations compute; the operations of the IEEE doubles are given
  further down. The fields are: the operators \<^verbatim>\<open>+\<close>, \<^verbatim>\<open>-\<close>, \<^verbatim>\<open>*\<close>; the operator \<^verbatim>\<open>/\<close>,
  which raises when the divisor is zero (\<open>None\<close>); \<^verbatim>\<open>abs\<close>; the comparison \<^verbatim>\<open><\<close>
  (\<^verbatim>\<open>x > y\<close> is \<^verbatim>\<open>y < x\<close>); and the constants of the code: \<^verbatim>\<open>0\<close>, \<^verbatim>\<open>2\<close>, \<^verbatim>\<open>1e-14\<close> and the
  default step \<^verbatim>\<open>h=1e-7\<close> of \<^verbatim>\<open>derivative\<close>.
\<close>

record 'n arith =
  f_add :: "'n \<Rightarrow> 'n \<Rightarrow> 'n"
  f_sub :: "'n \<Rightarrow> 'n \<Rightarrow> 'n"
  f_mul :: "'n \<Rightarrow> 'n \<Rightarrow> 'n"
  f_div :: "'n \<Rightarrow> 'n \<Rightarrow> 'n option"
  f_abs :: "'n \<Rightarrow> 'n"
  f_lt :: "'n \<Rightarrow> 'n \<Rightarrow> bool"
  f_zero :: 'n
  f_two :: 'n
  f_eps :: 'n
  f_h :: 'n

subsection \<open>Traces and results\<close>

text \<open>
  One entry of the dictionary appended to \<^verbatim>\<open>iterations\<close> in each pass. \<^verbatim>\<open>app.py\<close>
  stores the pass number as it is and every number as formatted text: \<open>Fixed8 v\<close> stands for
  \<^verbatim>\<open>f"{v:.8f}"\<close> and \<open>Sci8 v\<close> for \<^verbatim>\<open>f"{v:.8e}"\<close>. (\<^verbatim>\<open>ZOF_CLI.py\<close> stores the
  same numbers unformatted, under the key \<^verbatim>\<open>'iter'\<close> for the pass number.)
\<close>

datatype 'n cell = Index int | Fixed8 'n | Sci8 'n

type_synonym 'n iteration_record = "(string \<times> 'n cell) list"

text \<open>The dictionary returned by a method of \<^verbatim>\<open>app.py\<close> on convergence.\<close>

record 'n solve_result =
  root_value :: 'n
  iterations :: "'n iteration_record list"
  total_iterations :: int
  final_error :: 'n
  fx :: 'n

text \<open>
  The solver reaches the expression only through \<^verbatim>\<open>safe_eval(expr, v)\<close>. In the six methods
  the expression is therefore represented by the partial function \<open>f\<close> with
  \<open>f v = Some r\<close> when \<^verbatim>\<open>safe_eval(expr, v)\<close> returns the float \<open>r\<close> and \<open>f v = None\<close>
  when it raises. The methods are embedded for expressions whose values are floats.
\<close>

type_synonym 'n evaluator = "'n \<Rightarrow> 'n option"

section \<open>The loop of the six methods\<close>

text \<open>
  All six methods run \<^verbatim>\<open>for i in range(1, max_iter + 1): ...\<close> and, when the loop is used
  up, \<^verbatim>\<open>raise ValueError("Maximum iterations reached without convergence")\<close>. One pass of
  the loop raises, returns the result, or goes on to the next pass with new values of the
  local variables.
\<close>

datatype ('s, 'n) pass_result =
    Raise error
  | Return "'n solve_result"
  | Next 's

function for_range ::
  "(int \<Rightarrow> 's \<Rightarrow> ('s, 'n) pass_result) \<Rightarrow> int \<Rightarrow> int \<Rightarrow> 's \<Rightarrow> error + 'n solve_result" where
  "for_range body max_iter i st =
     (if max_iter < i then Inl ConvergenceError
      else case body i st of
             Raise e \<Rightarrow> Inl e
           | Return res \<Rightarrow> Inr res
           | Next st' \<Rightarrow> for_range body max_iter (i + 1) st')"
  by pat_completeness auto
termination
  by (relation "measure (\<lambda>(body, max_iter, i, st). nat (max_iter + 1 - i))") auto

declare for_range.simps [simp del]

section \<open>Numerical derivative\<close>

text \<open>
  \<^verbatim>\<open>(safe_eval(expr, x_val + h) - safe_eval(expr, x_val - h)) / (2 * h)\<close>.
\<close>

definition derivative :: "'n arith \<Rightarrow> 'n evaluator \<Rightarrow> 'n \<Rightarrow> 'n \<Rightarrow> error + 'n" where
  "derivative A f x_val h =
     (case f (f_add A x_val h) of
        None \<Rightarrow> Inl EvaluationError
      | Some fp \<Rightarrow>
          (case f (f_sub A x_val h) of
             None \<Rightarrow> Inl EvaluationError
           | Some fm \<Rightarrow>
               (case f_div A (f_sub A fp fm) (f_mul A (f_two A) h) of
                  None \<Rightarrow> Inl ZeroDivisionError
                | Some d \<Rightarrow> Inr d)))"

section \<open>The six methods\<close>

subsection \<open>Bisection\<close>

text \<open>The local variables of the loop are \<open>a\<close>, \<open>b\<close>, \<open>fa\<close>, \<open>fb\<close> and \<open>iterations\<close>.\<close>

fun bisection_pass ::
  "'n arith \<Rightarrow> 'n evaluator \<Rightarrow> 'n \<Rightarrow> int \<Rightarrow>
   'n \<times> 'n \<times> 'n \<times> 'n \<times> 'n iteration_record list \<Rightarrow>
   ('n \<times> 'n \<times> 'n \<times> 'n \<times> 'n iteration_record list, 'n) pass_result" where
  "bisection_pass A f tol i (a, b, fa, fb, iters) =
     (case f_div A (f_add A a b) (f_two A) of
        None \<Rightarrow> Raise ZeroDivisionError
      | Some c \<Rightarrow>
          (case f c of
             None \<Rightarrow> Raise EvaluationError
           | Some fc \<Rightarrow>
               (case f_div A (f_abs A (f_sub A b a)) (f_two A) of
                  None \<Rightarrow> Raise ZeroDivisionError
                | Some err \<Rightarrow>
                    let iters' = iters @ [[(''iteration'', Index i), (''a'', Fixed8 a),
                                           (''b'', Fixed8 b), (''c'', Fixed8 c),
                                           (''fc'', Sci8 fc), (''error'', Sci8 err)]]
                    in if f_lt A err tol \<or> f_lt A (f_abs A fc) tol
                       then Return \<lparr>root_value = c, iterations = iters', total_iterations = i,
                                    final_error = err, fx = fc\<rparr>
                       else if f_lt A (f_mul A fa fc) (f_zero A)
                            then Next (a, c, fa, fc, iters')
                            else Next (c, b, fc, fb, iters'))))"

definition bisection_method ::
  "'n arith \<Rightarrow> 'n evaluator \<Rightarrow> 'n \<Rightarrow> 'n \<Rightarrow> 'n \<Rightarrow> int \<Rightarrow> error + 'n solve_result" where
  "bisection_method A f a b tol max_iter =
     (case f a of
        None \<Rightarrow> Inl EvaluationError
      | Some fa \<Rightarrow>
          (case f b of
             None \<Rightarrow> Inl EvaluationError
           | Some fb \<Rightarrow>
               if f_lt A (f_zero A) (f_mul A fa fb) then Inl PreconditionError
               else for_range (bisection_pass A f tol) max_iter 1 (a, b, fa, fb, [])))"

subsection \<open>Regula falsi\<close>

text \<open>
  The local variables of the loop are \<open>a\<close>, \<open>b\<close>, \<open>c_old\<close> and \<open>iterations\<close>. The quotient
  \<^verbatim>\<open>(a * fb - b * fa) / (fb - fa)\<close> has no guard.
\<close>

fun regula_falsi_pass ::
  "'n arith \<Rightarrow> 'n evaluator \<Rightarrow> 'n \<Rightarrow> int \<Rightarrow>
   'n \<times> 'n \<times> 'n \<times> 'n iteration_record list \<Rightarrow>
   ('n \<times> 'n \<times> 'n \<times> 'n iteration_record list, 'n) pass_result" where
  "regula_falsi_pass A f tol i (a, b, c_old, iters) =
     (case f a of
        None \<Rightarrow> Raise EvaluationError
      | Some fa \<Rightarrow>
          (case f b of
             None \<Rightarrow> Raise EvaluationError
           | Some fb \<Rightarrow>
               (case f_div A (f_sub A (f_mul A a fb) (f_mul A b fa)) (f_sub A fb fa) of
                  None \<Rightarrow> Raise ZeroDivisionError
                | Some c \<Rightarrow>
                    (case f c of
                       None \<Rightarrow> Raise EvaluationError
                     | Some fc \<Rightarrow>
                         let err = (if i > 1 then f_abs A (f_sub A c c_old)
                                    else f_abs A (f_sub A b a));
                             iters' = iters @ [[(''iteration'', Index i), (''a'', Fixed8 a),
                                                (''b'', Fixed8 b), (''c'', Fixed8 c),
                                                (''fc'', Sci8 fc), (''error'', Sci8 err)]]
                         in if f_lt A err tol \<or> f_lt A (f_abs A fc) tol
                            then Return \<lparr>root_value = c, iterations = iters',
                                         total_iterations = i, final_error = err, fx = fc\<rparr>
                            else if f_lt A (f_mul A fa fc) (f_zero A)
                                 then Next (a, c, c, iters')
                                 else Next (c, b, c, iters')))))"

definition regula_falsi_method ::
  "'n arith \<Rightarrow> 'n evaluator \<Rightarrow> 'n \<Rightarrow> 'n \<Rightarrow> 'n \<Rightarrow> int \<Rightarrow> error + 'n solve_result" where
  "regula_falsi_method A f a b tol max_iter =
     for_range (regula_falsi_pass A f tol) max_iter 1 (a, b, a, [])"

subsection \<open>Secant\<close>

text \<open>
  The local variables of the loop are \<open>x0\<close>, \<open>x1\<close> and \<open>iterations\<close>. The four remaining
  methods evaluate the expression once more, at the root they return, while they build the
  result (\<^verbatim>\<open>'fx': safe_eval(expr, x2)\<close>); that evaluation can raise too.
\<close>

fun secant_pass ::
  "'n arith \<Rightarrow> 'n evaluator \<Rightarrow> 'n \<Rightarrow> int \<Rightarrow> 'n \<times> 'n \<times> 'n iteration_record list \<Rightarrow>
   ('n \<times> 'n \<times> 'n iteration_record list, 'n) pass_result" where
  "secant_pass A f tol i (x0, x1, iters) =
     (case f x0 of
        None \<Rightarrow> Raise EvaluationError
      | Some f0 \<Rightarrow>
          (case f x1 of
             None \<Rightarrow> Raise EvaluationError
           | Some f1 \<Rightarrow>
               if f_lt A (f_abs A (f_sub A f1 f0)) (f_eps A) then Raise SingularityError
               else
                 (case f_div A (f_mul A f1 (f_sub A x1 x0)) (f_sub A f1 f0) of
                    None \<Rightarrow> Raise ZeroDivisionError
                  | Some q \<Rightarrow>
                      let x2 = f_sub A x1 q;
                          err = f_abs A (f_sub A x2 x1);
                          iters' = iters @ [[(''iteration'', Index i), (''x0'', Fixed8 x0),
                                             (''x1'', Fixed8 x1), (''f1'', Sci8 f1),
                                             (''error'', Sci8 err)]]
                      in if f_lt A err tol \<or> f_lt A (f_abs A f1) tol
                         then (case f x2 of
                                 None \<Rightarrow> Raise EvaluationError
                               | Some f2 \<Rightarrow>
                                   Return \<lparr>root_value = x2, iterations = iters',
                                           total_iterations = i, final_error = err, fx = f2\<rparr>)
                         else Next (x1, x2, iters'))))"

definition secant_method ::
  "'n arith \<Rightarrow> 'n evaluator \<Rightarrow> 'n \<Rightarrow> 'n \<Rightarrow> 'n \<Rightarrow> int \<Rightarrow> error + 'n solve_result" where
  "secant_method A f x0 x1 tol max_iter =
     for_range (secant_pass A f tol) max_iter 1 (x0, x1, [])"

subsection \<open>Newton-Raphson\<close>

text \<open>
  The local variables of the loop are \<open>x\<close> and \<open>iterations\<close>. \<^verbatim>\<open>derivative(expr, x)\<close> is
  called with its default step.
\<close>

fun newton_raphson_pass ::
  "'n arith \<Rightarrow> 'n evaluator \<Rightarrow> 'n \<Rightarrow> int \<Rightarrow> 'n \<times> 'n iteration_record list \<Rightarrow>
   ('n \<times> 'n iteration_record list, 'n) pass_result" where
  "newton_raphson_pass A f tol i (x, iters) =
     (case f x of
        None \<Rightarrow> Raise EvaluationError
      | Some fx_val \<Rightarrow>
          (case derivative A f x (f_h A) of
             Inl e \<Rightarrow> Raise e
           | Inr fpx \<Rightarrow>
               if f_lt A (f_abs A fpx) (f_eps A) then Raise SingularityError
               else
                 (case f_div A fx_val fpx of
                    None \<Rightarrow> Raise ZeroDivisionError
                  | Some q \<Rightarrow>
                      let x_new = f_sub A x q;
                          err = f_abs A (f_sub A x_new x);
                          iters' = iters @ [[(''iteration'', Index i), (''x'', Fixed8 x),
                                             (''fx'', Sci8 fx_val), (''fpx'', Sci8 fpx),
                                             (''error'', Sci8 err)]]
                      in if f_lt A err tol \<or> f_lt A (f_abs A fx_val) tol
                         then (case f x_new of
                                 None \<Rightarrow> Raise EvaluationError
                               | Some f_new \<Rightarrow>
                                   Return \<lparr>root_value = x_new, iterations = iters',
                                           total_iterations = i, final_error = err,
                                           fx = f_new\<rparr>)
                         else Next (x_new, iters'))))"

definition newton_raphson_method ::
  "'n arith \<Rightarrow> 'n evaluator \<Rightarrow> 'n \<Rightarrow> 'n \<Rightarrow> int \<Rightarrow> error + 'n solve_result" where
  "newton_raphson_method A f x0 tol max_iter =
     for_range (newton_raphson_pass A f tol) max_iter 1 (x0, [])"

subsection \<open>Fixed-point iteration\<close>

fun fixed_point_pass ::
  "'n arith \<Rightarrow> 'n evaluator \<Rightarrow> 'n evaluator \<Rightarrow> 'n \<Rightarrow> int \<Rightarrow> 'n \<times> 'n iteration_record list \<Rightarrow>
   ('n \<times> 'n iteration_record list, 'n) pass_result" where
  "fixed_point_pass A f g tol i (x, iters) =
     (case g x of
        None \<Rightarrow> Raise EvaluationError
      | Some g_x \<Rightarrow>
          (case f x of
             None \<Rightarrow> Raise EvaluationError
           | Some fx_val \<Rightarrow>
               let err = f_abs A (f_sub A g_x x);
                   iters' = iters @ [[(''iteration'', Index i), (''x'', Fixed8 x),
                                      (''gx'', Fixed8 g_x), (''fx'', Sci8 fx_val),
                                      (''error'', Sci8 err)]]
               in if f_lt A err tol \<or> f_lt A (f_abs A fx_val) tol
                  then (case f g_x of
                          None \<Rightarrow> Raise EvaluationError
                        | Some f_new \<Rightarrow>
                            Return \<lparr>root_value = g_x, iterations = iters',
                                    total_iterations = i, final_error = err, fx = f_new\<rparr>)
                  else Next (g_x, iters')))"

definition fixed_point_method ::
  "'n arith \<Rightarrow> 'n evaluator \<Rightarrow> 'n evaluator \<Rightarrow> 'n \<Rightarrow> 'n \<Rightarrow> int \<Rightarrow>
   error + 'n solve_result" where
  "fixed_point_method A f g x0 tol max_iter =
     for_range (fixed_point_pass A f g tol) max_iter 1 (x0, [])"

subsection \<open>Modified secant\<close>

fun modified_secant_pass ::
  "'n arith \<Rightarrow> 'n evaluator \<Rightarrow> 'n \<Rightarrow> 'n \<Rightarrow> int \<Rightarrow> 'n \<times> 'n iteration_record list \<Rightarrow>
   ('n \<times> 'n iteration_record list, 'n) pass_result" where
  "modified_secant_pass A f delta tol i (x, iters) =
     (case f x of
        None \<Rightarrow> Raise EvaluationError
      | Some fx_val \<Rightarrow>
          (case f (f_add A x (f_mul A delta x)) of
             None \<Rightarrow> Raise EvaluationError
           | Some fx_delta \<Rightarrow>
               if f_lt A (f_abs A (f_sub A fx_delta fx_val)) (f_eps A)
               then Raise SingularityError
               else
                 (case f_div A (f_mul A fx_val (f_mul A delta x)) (f_sub A fx_delta fx_val) of
                    None \<Rightarrow> Raise ZeroDivisionError
                  | Some q \<Rightarrow>
                      let x_new = f_sub A x q;
                          err = f_abs A (f_sub A x_new x);
                          iters' = iters @ [[(''iteration'', Index i), (''x'', Fixed8 x),
                                             (''fx'', Sci8 fx_val),
                                             (''fx_delta'', Sci8 fx_delta),
                                             (''error'', Sci8 err)]]
                      in if f_lt A err tol \<or> f_lt A (f_abs A fx_val) tol
                         then (case f x_new of
                                 None \<Rightarrow> Raise EvaluationError
                               | Some f_new \<Rightarrow>
                                   Return \<lparr>root_value = x_new, iterations = iters',
                                           total_iterations = i, final_error = err,
                                           fx = f_new\<rparr>)
                         else Next (x_new, iters'))))"

definition modified_secant_method ::
  "'n arith \<Rightarrow> 'n evaluator \<Rightarrow> 'n \<Rightarrow> 'n \<Rightarrow> 'n \<Rightarrow> int \<Rightarrow> error + 'n solve_result" where
  "modified_secant_method A f x0 delta tol max_iter =
     for_range (modified_secant_pass A f delta tol) max_iter 1 (x0, [])"

section \<open>Reading a result\<close>

text \<open>
  The pass number stored in a trace entry, a number stored under a key, and the stopping
  test \<^verbatim>\<open>error < tol or abs(v) < tol\<close> recomputed from the entry's own \<^verbatim>\<open>'error'\<close> and from
  the function value it stores under the key \<open>k\<close> (\<^verbatim>\<open>'fc'\<close>, \<^verbatim>\<open>'f1'\<close> or \<^verbatim>\<open>'fx'\<close>).
\<close>

definition rec_iteration :: "'n iteration_record \<Rightarrow> int option" where
  "rec_iteration r = (case map_of r ''iteration'' of Some (Index i) \<Rightarrow> Some i | _ \<Rightarrow> None)"

definition rec_number :: "string \<Rightarrow> 'n iteration_record \<Rightarrow> 'n option" where
  "rec_number k r =
     (case map_of r k of Some (Fixed8 v) \<Rightarrow> Some v | Some (Sci8 v) \<Rightarrow> Some v | _ \<Rightarrow> None)"

definition stop_rule :: "'n arith \<Rightarrow> 'n \<Rightarrow> string \<Rightarrow> 'n iteration_record \<Rightarrow> bool option" where
  "stop_rule A tol k r =
     (case rec_number ''error'' r of
        None \<Rightarrow> None
      | Some err \<Rightarrow>
          (case rec_number k r of
             None \<Rightarrow> None
           | Some v \<Rightarrow> Some (f_lt A err tol \<or> f_lt A (f_abs A v) tol)))"

text \<open>
  A trace that holds one entry per pass: as many entries as \<^verbatim>\<open>total_iterations\<close>, numbered
  \<open>1, 2, \<dots>\<close> in order.
\<close>

definition indexed_trace :: "'n solve_result \<Rightarrow> bool" where
  "indexed_trace res \<longleftrightarrow>
     int (length (iterations res)) = total_iterations res \<and>
     map rec_iteration (iterations res) = map Some [1..total_iterations res]"

text \<open>
  A trace on which the stopping test fails in every pass but the last, and holds in the last.
\<close>

definition stops_at_first :: "'n arith \<Rightarrow> 'n \<Rightarrow> string \<Rightarrow> 'n solve_result \<Rightarrow> bool" where
  "stops_at_first A tol k res \<longleftrightarrow>
     map (stop_rule A tol k) (iterations res) =
       replicate (nat (total_iterations res - 1)) (Some False) @ [Some True]"

text \<open>
  What a loop that is entered at pass \<open>i\<close> with the trace \<open>iters\<close> adds when it returns:
  one entry for each of the passes \<open>i, \<dots>, total_iterations\<close>, the stopping test failing on
  all of them but the last.
\<close>

definition pass_suffix ::
  "'n arith \<Rightarrow> 'n \<Rightarrow> string \<Rightarrow> int \<Rightarrow> int \<Rightarrow> 'n iteration_record list \<Rightarrow> 'n solve_result \<Rightarrow> bool"
  where
  "pass_suffix A tol k max_iter i iters res \<longleftrightarrow>
     i \<le> total_iterations res \<and> total_iterations res \<le> max_iter \<and>
     (\<exists>new. iterations res = iters @ new \<and>
        map rec_iteration new = map Some [i..total_iterations res] \<and>
        map (stop_rule A tol k) new =
          replicate (nat (total_iterations res - i)) (Some False) @ [Some True])"

text \<open>
  One pass, seen from outside: \<open>out\<close> is what pass number \<open>i\<close> made of the trace \<open>iters\<close>, and
  \<open>tr\<close> reads the trace in the local variables. A pass that returns has appended one entry,
  numbered \<open>i\<close>, on which the stopping test holds, and counts \<open>i\<close> iterations; a pass that goes
  on has appended one entry, numbered \<open>i\<close>, on which the stopping test fails.
\<close>

definition pass_tested ::
  "'n arith \<Rightarrow> 'n \<Rightarrow> string \<Rightarrow> ('s \<Rightarrow> 'n iteration_record list) \<Rightarrow> int \<Rightarrow>
   'n iteration_record list \<Rightarrow> ('s, 'n) pass_result \<Rightarrow> bool" where
  "pass_tested A tol k tr i iters out =
     (case out of
        Raise e \<Rightarrow> True
      | Return res \<Rightarrow>
          iterations res \<noteq> [] \<and> butlast (iterations res) = iters \<and>
          total_iterations res = i \<and>
          rec_iteration (last (iterations res)) = Some i \<and>
          stop_rule A tol k (last (iterations res)) = Some True
      | Next st' \<Rightarrow>
          tr st' \<noteq> [] \<and> butlast (tr st') = iters \<and>
          rec_iteration (last (tr st')) = Some i \<and>
          stop_rule A tol k (last (tr st')) = Some False)"

text \<open>
  The local variables after \<open>k\<close> passes that all went on to the next one, beginning with pass
  number \<open>i\<close>; \<open>None\<close> if one of these passes returned or raised.
\<close>

fun passes_from ::
  "(int \<Rightarrow> 's \<Rightarrow> ('s, 'n) pass_result) \<Rightarrow> int \<Rightarrow> nat \<Rightarrow> 's \<Rightarrow> 's option" where
  "passes_from body i 0 st = Some st"
| "passes_from body i (Suc k) st =
     (case body i st of
        Next st' \<Rightarrow> passes_from body (i + 1) k st'
      | _ \<Rightarrow> None)"

section \<open>Python floats\<close>

text \<open>
  A Python float is an IEEE double: a finite number, one of the two zeros, one of the two
  infinities, or a NaN. \<open>Fin r\<close> is the double with the value \<open>r\<close>, and \<open>Fin 0\<close> the positive
  zero. An operation on finite doubles whose exact result is not zero returns that result
  rounded; the rounding is the parameter \<open>rnd\<close>, of which nothing is assumed: it may round to
  a finite double, to a zero (underflow) or to an infinity (overflow). The results that
  involve no rounding are fixed by the standard: sums and products with zeros, infinities
  and NaN, and the sign of a zero result.
\<close>

datatype pyfloat = Fin real | NegZero | PInf | NInf | NaN

fun negative :: "pyfloat \<Rightarrow> bool" where
  "negative (Fin r) = (r < 0)"
| "negative NegZero = True"
| "negative PInf = False"
| "negative NInf = True"
| "negative NaN = False"

fun is_zero :: "pyfloat \<Rightarrow> bool" where
  "is_zero (Fin r) = (r = 0)"
| "is_zero NegZero = True"
| "is_zero PInf = False"
| "is_zero NInf = False"
| "is_zero NaN = False"

fun is_inf :: "pyfloat \<Rightarrow> bool" where
  "is_inf PInf = True"
| "is_inf NInf = True"
| "is_inf (Fin r) = False"
| "is_inf NegZero = False"
| "is_inf NaN = False"

fun finite_float :: "pyfloat \<Rightarrow> bool" where
  "finite_float (Fin r) = True"
| "finite_float NegZero = True"
| "finite_float PInf = False"
| "finite_float NInf = False"
| "finite_float NaN = False"

text \<open>The value of a finite double.\<close>

fun val :: "pyfloat \<Rightarrow> real" where
  "val (Fin r) = r"
| "val NegZero = 0"
| "val PInf = 0"
| "val NInf = 0"
| "val NaN = 0"

definition signed_zero :: "bool \<Rightarrow> pyfloat" where
  "signed_zero neg = (if neg then NegZero else Fin 0)"

definition signed_inf :: "bool \<Rightarrow> pyfloat" where
  "signed_inf neg = (if neg then NInf else PInf)"

fun fneg :: "pyfloat \<Rightarrow> pyfloat" where
  "fneg (Fin r) = (if r = 0 then NegZero else Fin (- r))"
| "fneg NegZero = Fin 0"
| "fneg PInf = NInf"
| "fneg NInf = PInf"
| "fneg NaN = NaN"

text \<open>
  \<^verbatim>\<open>x + y\<close>. An exact sum of zero is the positive zero, unless both operands are the
  negative zero.
\<close>

definition fadd :: "(real \<Rightarrow> pyfloat) \<Rightarrow> pyfloat \<Rightarrow> pyfloat \<Rightarrow> pyfloat" where
  "fadd rnd x y =
     (if x = NaN \<or> y = NaN then NaN
      else if x = PInf then (if y = NInf then NaN else PInf)
      else if x = NInf then (if y = PInf then NaN else NInf)
      else if y = PInf then PInf
      else if y = NInf then NInf
      else if val x + val y \<noteq> 0 then rnd (val x + val y)
      else if x = NegZero \<and> y = NegZero then NegZero
      else Fin 0)"

text \<open>\<^verbatim>\<open>x - y\<close> is \<^verbatim>\<open>x + (-y)\<close>.\<close>

definition fsub :: "(real \<Rightarrow> pyfloat) \<Rightarrow> pyfloat \<Rightarrow> pyfloat \<Rightarrow> pyfloat" where
  "fsub rnd x y = fadd rnd x (fneg y)"

text \<open>\<^verbatim>\<open>x * y\<close>. The sign of a zero or infinite product is the product of the signs.\<close>

definition fmul :: "(real \<Rightarrow> pyfloat) \<Rightarrow> pyfloat \<Rightarrow> pyfloat \<Rightarrow> pyfloat" where
  "fmul rnd x y =
     (if x = NaN \<or> y = NaN then NaN
      else if (is_inf x \<and> is_zero y) \<or> (is_zero x \<and> is_inf y) then NaN
      else if is_inf x \<or> is_inf y then signed_inf (negative x \<noteq> negative y)
      else if val x * val y \<noteq> 0 then rnd (val x * val y)
      else signed_zero (negative x \<noteq> negative y))"

text \<open>
  \<^verbatim>\<open>x / y\<close>. Python raises \<^verbatim>\<open>ZeroDivisionError\<close> for a zero divisor, whatever the
  dividend is.
\<close>

definition fdiv :: "(real \<Rightarrow> pyfloat) \<Rightarrow> pyfloat \<Rightarrow> pyfloat \<Rightarrow> pyfloat option" where
  "fdiv rnd x y =
     (if is_zero y then None
      else Some
        (if x = NaN \<or> y = NaN then NaN
         else if is_inf x \<and> is_inf y then NaN
         else if is_inf x then signed_inf (negative x \<noteq> negative y)
         else if is_inf y then signed_zero (negative x \<noteq> negative y)
         else if val x / val y \<noteq> 0 then rnd (val x / val y)
         else signed_zero (negative x \<noteq> negative y)))"

fun fabs :: "pyfloat \<Rightarrow> pyfloat" where
  "fabs (Fin r) = Fin \<bar>r\<bar>"
| "fabs NegZero = Fin 0"
| "fabs PInf = PInf"
| "fabs NInf = PInf"
| "fabs NaN = NaN"

text \<open>\<^verbatim>\<open>x < y\<close>: false when an operand is a NaN; the two zeros are equal.\<close>

definition flt :: "pyfloat \<Rightarrow> pyfloat \<Rightarrow> bool" where
  "flt x y =
     (if x = NaN \<or> y = NaN then False
      else if x = NInf then y \<noteq> NInf
      else if y = PInf then x \<noteq> PInf
      else if x = PInf \<or> y = NInf then False
      else val x < val y)"

text \<open>
  The arithmetic of the solver on doubles. The literals \<^verbatim>\<open>1e-14\<close> and \<^verbatim>\<open>1e-7\<close> denote the
  doubles nearest to them: \<open>6338253001141147 / 2\<^sup>9\<^sup>9\<close> and \<open>944473296573929 / 2\<^sup>7\<^sup>3\<close>.
\<close>

definition py :: "(real \<Rightarrow> pyfloat) \<Rightarrow> pyfloat arith" where
  "py rnd =
     \<lparr>f_add = fadd rnd, f_sub = fsub rnd, f_mul = fmul rnd, f_div = fdiv rnd,
      f_abs = fabs, f_lt = flt, f_zero = Fin 0, f_two = Fin 2,
      f_eps = Fin (6338253001141147 / 2 ^ 99), f_h = Fin (944473296573929 / 2 ^ 73)\<rparr>"

text \<open>
  The rounding that changes nothing: it is the rounding of the doubles on every real number
  that is a double. The example runs below use it on such numbers only.
\<close>

definition no_rounding :: "real \<Rightarrow> pyfloat" where
  "no_rounding r = Fin r"



section \<open>Example expressions\<close>

text \<open>
  The float functions of the expressions \<^verbatim>\<open>x\<close>, \<^verbatim>\<open>m*x - c\<close>, \<^verbatim>\<open>x*x - x - c\<close>,
  \<^verbatim>\<open>x*x + c\<close>, \<^verbatim>\<open>(x + c)/d\<close> and \<^verbatim>\<open>1/x - c\<close>, and of a constant. An exception inside the expression,
  here the division by zero, is the failure of \<^verbatim>\<open>safe_eval\<close>.
\<close>

definition ex_var :: "'n evaluator" where
  "ex_var v = Some v"

definition ex_const :: "'n \<Rightarrow> 'n evaluator" where
  "ex_const k v = Some k"

definition ex_linear :: "'n arith \<Rightarrow> 'n \<Rightarrow> 'n \<Rightarrow> 'n evaluator" where
  "ex_linear A m c v = Some (f_sub A (f_mul A m v) c)"

definition ex_quadratic :: "'n arith \<Rightarrow> 'n \<Rightarrow> 'n evaluator" where
  "ex_quadratic A c v = Some (f_sub A (f_sub A (f_mul A v v) v) c)"

definition ex_square_plus :: "'n arith \<Rightarrow> 'n \<Rightarrow> 'n evaluator" where
  "ex_square_plus A c v = Some (f_add A (f_mul A v v) c)"

definition ex_shift_div :: "'n arith \<Rightarrow> 'n \<Rightarrow> 'n \<Rightarrow> 'n evaluator" where
  "ex_shift_div A c d v = f_div A (f_add A v c) d"

definition ex_recip_minus :: "'n arith \<Rightarrow> 'n \<Rightarrow> 'n \<Rightarrow> 'n evaluator" where
  "ex_recip_minus A one c v =
     (case f_div A one v of None \<Rightarrow> None | Some q \<Rightarrow> Some (f_sub A q c))"

section \<open>The methods in an interpreter with state\<close>



















section \<open>Expression evaluation\<close>

text \<open>
  \<^verbatim>\<open>safe_eval\<close> hands the expression text to Python's \<^verbatim>\<open>eval\<close> with the globals
  \<^verbatim>\<open>{"__builtins__": None}\<close> and a dictionary of local names. The part of Python's
  expression language embedded here is: constants, names, attribute access, unary minus, the
  binary operators \<^verbatim>\<open>+ - * / // % **\<close>, and calls with positional arguments; every one of
  these evaluates all its parts. An expression is given as its syntax tree. Python has more
  (lambda and comprehensions, which bind names; \<^verbatim>\<open>and\<close>, \<^verbatim>\<open>or\<close>, chained comparisons and
  the conditional expression, which skip parts), and nothing here is about such expressions.

  Values are floats, the function objects of the namespace, the module \<^verbatim>\<open>math\<close>, \<^verbatim>\<open>None\<close>,
  and any other object. What Python's objects do is a parameter, the host: looking up an
  attribute, negating, applying a binary operator, and calling; each yields a value or
  raises (\<open>None\<close>).
\<close>

datatype binop = Add | Sub | Mult | Div | FloorDiv | Mod | Pow

datatype 'o pyval = Float pyfloat | Function string | Module | NoneValue | Other 'o










section \<open>The loop\<close>

lemma upto_head: "i \<le> n \<Longrightarrow> [i..n] = i # [i + 1..n]"
  by (simp add: upto_rec1)

lemma replicate_step:
  "i + 1 \<le> n \<Longrightarrow> replicate (nat (n - i)) x = x # replicate (nat (n - (i + 1))) x"
proof -
  assume "i + 1 \<le> n"
  then have "nat (n - i) = Suc (nat (n - (i + 1)))" by arith
  then show ?thesis by simp
qed

lemma pass_suffix_last:
  "rec_iteration r = Some i \<Longrightarrow> stop_rule A tol k r = Some True \<Longrightarrow> i \<le> max_iter \<Longrightarrow>
   iterations res = iters @ [r] \<Longrightarrow> total_iterations res = i \<Longrightarrow>
   pass_suffix A tol k max_iter i iters res"
  by (simp add: pass_suffix_def)

lemma pass_suffix_step:
  "rec_iteration r = Some i \<Longrightarrow> stop_rule A tol k r = Some False \<Longrightarrow>
   pass_suffix A tol k max_iter (i + 1) (iters @ [r]) res \<Longrightarrow>
   pass_suffix A tol k max_iter i iters res"
  unfolding pass_suffix_def
  apply (elim conjE exE)
  subgoal for new
    apply (intro conjI)
      apply simp
     apply simp
    apply (rule exI[of _ "r # new"])
    apply (simp add: upto_head replicate_step)
    done
  done

lemma pass_suffix_indexed: "pass_suffix A tol k max_iter 1 [] res \<Longrightarrow> indexed_trace res"
proof -
  assume "pass_suffix A tol k max_iter 1 [] res"
  then have n: "1 \<le> total_iterations res"
    and ix: "map rec_iteration (iterations res) = map Some [1..total_iterations res]"
    by (auto simp: pass_suffix_def)
  have "length (iterations res) = length (map rec_iteration (iterations res))" by simp
  also have "\<dots> = length [1..total_iterations res]" by (simp add: ix)
  finally have "int (length (iterations res)) = total_iterations res" using n by simp
  with ix show ?thesis by (simp add: indexed_trace_def)
qed

lemma pass_suffix_stops:
  "pass_suffix A tol k max_iter 1 [] res \<Longrightarrow> stops_at_first A tol k res"
  by (auto simp: pass_suffix_def stops_at_first_def)

lemma pass_suffix_count:
  "pass_suffix A tol k max_iter 1 [] res \<Longrightarrow>
   1 \<le> total_iterations res \<and> total_iterations res \<le> max_iter"
  by (simp add: pass_suffix_def)

text \<open>What one pass does to the run.\<close>

lemma for_range_pass:
  assumes "i \<le> max_iter"
  shows "body i st = Raise e \<Longrightarrow> for_range body max_iter i st = Inl e"
    and "body i st = Return res \<Longrightarrow> for_range body max_iter i st = Inr res"
    and "body i st = Next st' \<Longrightarrow>
         for_range body max_iter i st = for_range body max_iter (i + 1) st'"
  using assms by (simp_all add: for_range.simps[of body max_iter i st])

lemma for_range_used_up: "max_iter < i \<Longrightarrow> for_range body max_iter i st = Inl ConvergenceError"
  by (simp add: for_range.simps)

text \<open>
  If every pass appends its entry and decides by the stopping test, a run that returns has
  the trace of \<open>pass_suffix\<close>.
\<close>

lemma for_range_suffix:
  assumes T: "\<And>i st. pass_tested A tol k tr i (tr st) (body i st)"
  shows "for_range body max_iter i st = Inr res \<Longrightarrow>
         pass_suffix A tol k max_iter i (tr st) res"
proof (induction "nat (max_iter + 1 - i)" arbitrary: i st)
  case 0
  then show ?case by (simp add: for_range.simps)
next
  case (Suc n)
  have m: "n = nat (max_iter + 1 - (i + 1))" using Suc.hyps(2) by arith
  have le: "i \<le> max_iter" using Suc.hyps(2) by arith
  show ?case
  proof (cases "body i st")
    case (Raise e)
    with Suc.prems le show ?thesis by (simp add: for_range_pass)
  next
    case (Return r)
    with Suc.prems le have r: "r = res" by (simp add: for_range_pass)
    from T[of i st] Return r have
      "iterations res \<noteq> []" "butlast (iterations res) = tr st" "total_iterations res = i"
      "rec_iteration (last (iterations res)) = Some i"
      "stop_rule A tol k (last (iterations res)) = Some True"
      by (simp_all add: pass_tested_def)
    moreover from this(1,2) have "iterations res = tr st @ [last (iterations res)]"
      by (metis append_butlast_last_id)
    ultimately show ?thesis using le by (intro pass_suffix_last) simp_all
  next
    case (Next st')
    with Suc.prems le have run: "for_range body max_iter (i + 1) st' = Inr res"
      by (simp add: for_range_pass)
    from T[of i st] Next have
      t: "tr st' \<noteq> []" "butlast (tr st') = tr st"
      "rec_iteration (last (tr st')) = Some i"
      "stop_rule A tol k (last (tr st')) = Some False"
      by (simp_all add: pass_tested_def)
    from t(1,2) have e: "tr st' = tr st @ [last (tr st')]"
      by (metis append_butlast_last_id)
    from Suc.hyps(1)[OF m run] have "pass_suffix A tol k max_iter (i + 1) (tr st') res" .
    then have "pass_suffix A tol k max_iter (i + 1) (tr st @ [last (tr st')]) res"
      using e by simp
    with t(3,4) show ?thesis by (rule pass_suffix_step)
  qed
qed

text \<open>
  Lowering the bound on the passes either leaves the outcome of a run as it was or turns it
  into the failure to converge.
\<close>

lemma for_range_bound:
  "n \<le> max_iter \<Longrightarrow> for_range body n i st \<noteq> Inl ConvergenceError \<Longrightarrow>
   for_range body n i st = for_range body max_iter i st"
proof (induction "nat (max_iter + 1 - i)" arbitrary: i st)
  case 0
  then have "n < i" by arith
  with "0.prems"(2) show ?case by (simp add: for_range.simps)
next
  case (Suc k)
  have m: "k = nat (max_iter + 1 - (i + 1))" using Suc.hyps(2) by arith
  note IH = Suc.hyps(1)[OF m Suc.prems(1)]
  show ?case
  proof (cases "n < i")
    case True
    with Suc.prems(2) show ?thesis by (simp add: for_range.simps)
  next
    case False
    then have le: "i \<le> n" "i \<le> max_iter" using Suc.prems(1) by simp_all
    show ?thesis
    proof (cases "body i st")
      case (Next st')
      with Suc.prems(2) le have "for_range body n (i + 1) st' \<noteq> Inl ConvergenceError"
        by (simp add: for_range_pass)
      from IH[OF this] Next le show ?thesis by (simp add: for_range_pass)
    qed (use le in \<open>simp_all add: for_range_pass\<close>)
  qed
qed

text \<open>
  A run fails to converge exactly when it makes all the passes up to the bound and each of
  them goes on to the next, provided no pass raises that error itself.
\<close>

lemma for_range_exhausted:
  assumes nc: "\<And>i st. body i st \<noteq> Raise ConvergenceError"
  shows "for_range body max_iter i st = Inl ConvergenceError \<longleftrightarrow>
         passes_from body i (nat (max_iter + 1 - i)) st \<noteq> None"
proof (induction "nat (max_iter + 1 - i)" arbitrary: i st)
  case 0
  then show ?case by (simp add: for_range.simps)
next
  case (Suc n)
  have m: "n = nat (max_iter + 1 - (i + 1))" using Suc.hyps(2) by arith
  have le: "i \<le> max_iter" using Suc.hyps(2) by arith
  have s: "nat (max_iter + 1 - i) = Suc n" using Suc.hyps(2) by simp
  show ?case
  proof (cases "body i st")
    case (Raise e)
    with nc[of i st] le show ?thesis by (simp add: for_range_pass s)
  next
    case (Return r)
    with le show ?thesis by (simp add: for_range_pass s)
  next
    case (Next st')
    with le Suc.hyps(1)[OF m, of st'] show ?thesis by (simp add: for_range_pass s m)
  qed
qed

text \<open>An error of a run is the failure to converge or an error raised by a pass.\<close>

lemma for_range_errors:
  "for_range body max_iter i st = Inl e \<Longrightarrow>
   e = ConvergenceError \<or> (\<exists>j st'. body j st' = Raise e)"
proof (induction "nat (max_iter + 1 - i)" arbitrary: i st)
  case 0
  then show ?case by (simp add: for_range.simps)
next
  case (Suc n)
  have m: "n = nat (max_iter + 1 - (i + 1))" using Suc.hyps(2) by arith
  have le: "i \<le> max_iter" using Suc.hyps(2) by arith
  show ?case
  proof (cases "body i st")
    case (Raise e')
    with Suc.prems le have "e' = e" by (simp add: for_range_pass)
    with Raise show ?thesis by blast
  next
    case (Return r)
    with Suc.prems le show ?thesis by (simp add: for_range_pass)
  next
    case (Next st')
    with Suc.prems le have "for_range body max_iter (i + 1) st' = Inl e"
      by (simp add: for_range_pass)
    from Suc.hyps(1)[OF m this] show ?thesis .
  qed
qed


section \<open>The passes\<close>

text \<open>
  Each pass appends its entry before it tests, and decides by the stopping test; it raises
  none but its own errors.
\<close>

lemma derivative_errors:
  "derivative A f x_val h = Inl e \<Longrightarrow> e = EvaluationError \<or> e = ZeroDivisionError"
  by (auto simp: derivative_def split: option.splits)

lemma bisection_pass_tested:
  "pass_tested A tol ''fc'' (\<lambda>(a, b, fa, fb, iters). iters) i
     ((\<lambda>(a, b, fa, fb, iters). iters) st) (bisection_pass A f tol i st)"
  by (cases st)
     (auto simp: pass_tested_def Let_def rec_iteration_def stop_rule_def rec_number_def
           split: option.splits sum.splits)

lemma bisection_pass_errors:
  "bisection_pass A f tol i st = Raise e \<Longrightarrow>
   e = EvaluationError \<or> e = ZeroDivisionError"
  by (cases st) (auto simp: Let_def split: option.splits sum.splits if_splits)

lemma regula_falsi_pass_tested:
  "pass_tested A tol ''fc'' (\<lambda>(a, b, c_old, iters). iters) i
     ((\<lambda>(a, b, c_old, iters). iters) st) (regula_falsi_pass A f tol i st)"
  by (cases st)
     (auto simp: pass_tested_def Let_def rec_iteration_def stop_rule_def rec_number_def
           split: option.splits sum.splits)

lemma regula_falsi_pass_errors:
  "regula_falsi_pass A f tol i st = Raise e \<Longrightarrow>
   e = EvaluationError \<or> e = ZeroDivisionError"
  by (cases st) (auto simp: Let_def split: option.splits sum.splits if_splits)

lemma secant_pass_tested:
  "pass_tested A tol ''f1'' (\<lambda>(x0, x1, iters). iters) i
     ((\<lambda>(x0, x1, iters). iters) st) (secant_pass A f tol i st)"
  by (cases st)
     (auto simp: pass_tested_def Let_def rec_iteration_def stop_rule_def rec_number_def
           split: option.splits sum.splits)

lemma secant_pass_errors:
  "secant_pass A f tol i st = Raise e \<Longrightarrow>
   e = EvaluationError \<or> e = ZeroDivisionError \<or> e = SingularityError"
  by (cases st) (auto simp: Let_def split: option.splits sum.splits if_splits)

lemma newton_raphson_pass_tested:
  "pass_tested A tol ''fx'' (\<lambda>(x, iters). iters) i
     ((\<lambda>(x, iters). iters) st) (newton_raphson_pass A f tol i st)"
  by (cases st)
     (auto simp: pass_tested_def Let_def rec_iteration_def stop_rule_def rec_number_def
           split: option.splits sum.splits)

lemma newton_raphson_pass_errors:
  "newton_raphson_pass A f tol i st = Raise e \<Longrightarrow>
   e = EvaluationError \<or> e = ZeroDivisionError \<or> e = SingularityError"
  by (cases st) (auto simp: Let_def split: option.splits sum.splits if_splits dest: derivative_errors)

lemma fixed_point_pass_tested:
  "pass_tested A tol ''fx'' (\<lambda>(x, iters). iters) i
     ((\<lambda>(x, iters). iters) st) (fixed_point_pass A f g tol i st)"
  by (cases st)
     (auto simp: pass_tested_def Let_def rec_iteration_def stop_rule_def rec_number_def
           split: option.splits sum.splits)

lemma fixed_point_pass_errors:
  "fixed_point_pass A f g tol i st = Raise e \<Longrightarrow>
   e = EvaluationError"
  by (cases st) (auto simp: Let_def split: option.splits sum.splits if_splits)

lemma modified_secant_pass_tested:
  "pass_tested A tol ''fx'' (\<lambda>(x, iters). iters) i
     ((\<lambda>(x, iters). iters) st) (modified_secant_pass A f delta tol i st)"
  by (cases st)
     (auto simp: pass_tested_def Let_def rec_iteration_def stop_rule_def rec_number_def
           split: option.splits sum.splits)

lemma modified_secant_pass_errors:
  "modified_secant_pass A f delta tol i st = Raise e \<Longrightarrow>
   e = EvaluationError \<or> e = ZeroDivisionError \<or> e = SingularityError"
  by (cases st) (auto simp: Let_def split: option.splits sum.splits if_splits)

section \<open>The interpreter state\<close>








section \<open>Example runs\<close>

text \<open>
  Runs of the six methods on doubles, computed from the definitions. Every number that
  occurs in them is a double, so that no operation rounds and the runs are those of the
  code. The expressions are \<^verbatim>\<open>8*x - 3\<close>, \<^verbatim>\<open>x*x - x - 1\<close>, \<^verbatim>\<open>x\<close>, \<^verbatim>\<open>x - 1\<close> with
  \<^verbatim>\<open>(x + 1)/2\<close>, and \<^verbatim>\<open>2*x - 1\<close>; the run of Newton-Raphson starts at the double \<^verbatim>\<open>1e-7\<close>
  with half of it as tolerance.
\<close>

lemmas float_simps = py_def no_rounding_def fadd_def fsub_def fmul_def fdiv_def flt_def
  signed_zero_def signed_inf_def

lemmas example_simps = ex_var_def ex_const_def ex_linear_def ex_quadratic_def
  ex_square_plus_def ex_shift_div_def ex_recip_minus_def

lemma run_bisection:
  "bisection_method (py no_rounding) (ex_linear (py no_rounding) (Fin 8) (Fin 3))
     (Fin 0) (Fin 1) (Fin (1/4)) 3 =
     Inr \<lparr>root_value = Fin (3/8),
          iterations =
            [[(''iteration'', Index 1), (''a'', Fixed8 (Fin 0)), (''b'', Fixed8 (Fin 1)),
              (''c'', Fixed8 (Fin (1/2))), (''fc'', Sci8 (Fin 1)), (''error'', Sci8 (Fin (1/2)))],
             [(''iteration'', Index 2), (''a'', Fixed8 (Fin 0)), (''b'', Fixed8 (Fin (1/2))),
              (''c'', Fixed8 (Fin (1/4))), (''fc'', Sci8 (Fin (-1))),
              (''error'', Sci8 (Fin (1/4)))],
             [(''iteration'', Index 3), (''a'', Fixed8 (Fin (1/4))), (''b'', Fixed8 (Fin (1/2))),
              (''c'', Fixed8 (Fin (3/8))), (''fc'', Sci8 (Fin 0)),
              (''error'', Sci8 (Fin (1/8)))]],
          total_iterations = 3, final_error = Fin (1/8), fx = Fin 0\<rparr>"
  by (simp add: Let_def bisection_method_def for_range.simps float_simps example_simps)

lemma run_regula_falsi:
  "regula_falsi_method (py no_rounding) (ex_quadratic (py no_rounding) (Fin 1))
     (Fin 0) (Fin 2) (Fin 1) 5 =
     Inr \<lparr>root_value = Fin (3/2),
          iterations =
            [[(''iteration'', Index 1), (''a'', Fixed8 (Fin 0)), (''b'', Fixed8 (Fin 2)),
              (''c'', Fixed8 (Fin 1)), (''fc'', Sci8 (Fin (-1))), (''error'', Sci8 (Fin 2))],
             [(''iteration'', Index 2), (''a'', Fixed8 (Fin 1)), (''b'', Fixed8 (Fin 2)),
              (''c'', Fixed8 (Fin (3/2))), (''fc'', Sci8 (Fin (- (1/4)))),
              (''error'', Sci8 (Fin (1/2)))]],
          total_iterations = 2, final_error = Fin (1/2), fx = Fin (- (1/4))\<rparr>"
  by (simp add: Let_def regula_falsi_method_def for_range.simps float_simps example_simps)

lemma run_secant:
  "secant_method (py no_rounding) (ex_quadratic (py no_rounding) (Fin 1))
     (Fin 0) (Fin 2) (Fin 1) 5 =
     Inr \<lparr>root_value = Fin (3/2),
          iterations =
            [[(''iteration'', Index 1), (''x0'', Fixed8 (Fin 0)), (''x1'', Fixed8 (Fin 2)),
              (''f1'', Sci8 (Fin 1)), (''error'', Sci8 (Fin 1))],
             [(''iteration'', Index 2), (''x0'', Fixed8 (Fin 2)), (''x1'', Fixed8 (Fin 1)),
              (''f1'', Sci8 (Fin (-1))), (''error'', Sci8 (Fin (1/2)))]],
          total_iterations = 2, final_error = Fin (1/2), fx = Fin (- (1/4))\<rparr>"
  by (simp add: Let_def secant_method_def for_range.simps float_simps example_simps)

lemma run_newton_raphson:
  "newton_raphson_method (py no_rounding) ex_var
     (Fin (944473296573929 / 2 ^ 73)) (Fin (944473296573929 / 2 ^ 74)) 5 =
     Inr \<lparr>root_value = Fin 0,
          iterations =
            [[(''iteration'', Index 1), (''x'', Fixed8 (Fin (944473296573929 / 2 ^ 73))),
              (''fx'', Sci8 (Fin (944473296573929 / 2 ^ 73))), (''fpx'', Sci8 (Fin 1)),
              (''error'', Sci8 (Fin (944473296573929 / 2 ^ 73)))],
             [(''iteration'', Index 2), (''x'', Fixed8 (Fin 0)), (''fx'', Sci8 (Fin 0)),
              (''fpx'', Sci8 (Fin 1)), (''error'', Sci8 (Fin 0))]],
          total_iterations = 2, final_error = Fin 0, fx = Fin 0\<rparr>"
  by (simp add: Let_def newton_raphson_method_def for_range.simps derivative_def float_simps
        example_simps)

lemma run_fixed_point:
  "fixed_point_method (py no_rounding) (ex_linear (py no_rounding) (Fin 1) (Fin 1))
     (ex_shift_div (py no_rounding) (Fin 1) (Fin 2)) (Fin 0) (Fin (3/8)) 5 =
     Inr \<lparr>root_value = Fin (3/4),
          iterations =
            [[(''iteration'', Index 1), (''x'', Fixed8 (Fin 0)), (''gx'', Fixed8 (Fin (1/2))),
              (''fx'', Sci8 (Fin (-1))), (''error'', Sci8 (Fin (1/2)))],
             [(''iteration'', Index 2), (''x'', Fixed8 (Fin (1/2))),
              (''gx'', Fixed8 (Fin (3/4))), (''fx'', Sci8 (Fin (- (1/2)))),
              (''error'', Sci8 (Fin (1/4)))]],
          total_iterations = 2, final_error = Fin (1/4), fx = Fin (- (1/4))\<rparr>"
  by (simp add: Let_def fixed_point_method_def for_range.simps float_simps example_simps)

lemma run_modified_secant:
  "modified_secant_method (py no_rounding) (ex_linear (py no_rounding) (Fin 2) (Fin 1))
     (Fin 1) (Fin 1) (Fin (1/4)) 5 =
     Inr \<lparr>root_value = Fin (1/2),
          iterations =
            [[(''iteration'', Index 1), (''x'', Fixed8 (Fin 1)), (''fx'', Sci8 (Fin 1)),
              (''fx_delta'', Sci8 (Fin 3)), (''error'', Sci8 (Fin (1/2)))],
             [(''iteration'', Index 2), (''x'', Fixed8 (Fin (1/2))), (''fx'', Sci8 (Fin 0)),
              (''fx_delta'', Sci8 (Fin 1)), (''error'', Sci8 (Fin 0))]],
          total_iterations = 2, final_error = Fin 0, fx = Fin 0\<rparr>"
  by (simp add: Let_def modified_secant_method_def for_range.simps float_simps example_simps)

section \<open>The methods as runs of the loop\<close>

text \<open>A method that returns has the trace of \<open>pass_suffix\<close>, from pass 1 and the empty trace.\<close>

lemma bisection_method_suffix:
  assumes "bisection_method A f a b tol max_iter = Inr res"
  shows "pass_suffix A tol ''fc'' max_iter 1 [] res"
proof -
  from assms obtain fa fb where
    "for_range (bisection_pass A f tol) max_iter 1 (a, b, fa, fb, []) = Inr res"
    by (auto simp: bisection_method_def split: option.splits if_splits)
  from for_range_suffix[where tr = "\<lambda>(a, b, fa, fb, iters). iters"
      and body = "bisection_pass A f tol", OF bisection_pass_tested this]
  show ?thesis by simp
qed

lemma regula_falsi_method_suffix:
  assumes "regula_falsi_method A f a b tol max_iter = Inr res"
  shows "pass_suffix A tol ''fc'' max_iter 1 [] res"
  using for_range_suffix[where tr = "\<lambda>(a, b, c_old, iters). iters"
      and body = "regula_falsi_pass A f tol", OF regula_falsi_pass_tested,
      of max_iter 1 "(a, b, a, [])" res] assms
  by (simp add: regula_falsi_method_def)

lemma secant_method_suffix:
  assumes "secant_method A f x0 x1 tol max_iter = Inr res"
  shows "pass_suffix A tol ''f1'' max_iter 1 [] res"
  using for_range_suffix[where tr = "\<lambda>(x0, x1, iters). iters"
      and body = "secant_pass A f tol", OF secant_pass_tested,
      of max_iter 1 "(x0, x1, [])" res] assms
  by (simp add: secant_method_def)

lemma newton_raphson_method_suffix:
  assumes "newton_raphson_method A f x0 tol max_iter = Inr res"
  shows "pass_suffix A tol ''fx'' max_iter 1 [] res"
  using for_range_suffix[where tr = "\<lambda>(x, iters). iters"
      and body = "newton_raphson_pass A f tol", OF newton_raphson_pass_tested,
      of max_iter 1 "(x0, [])" res] assms
  by (simp add: newton_raphson_method_def)

lemma fixed_point_method_suffix:
  assumes "fixed_point_method A f g x0 tol max_iter = Inr res"
  shows "pass_suffix A tol ''fx'' max_iter 1 [] res"
  using for_range_suffix[where tr = "\<lambda>(x, iters). iters"
      and body = "fixed_point_pass A f g tol", OF fixed_point_pass_tested,
      of max_iter 1 "(x0, [])" res] assms
  by (simp add: fixed_point_method_def)

lemma modified_secant_method_suffix:
  assumes "modified_secant_method A f x0 delta tol max_iter = Inr res"
  shows "pass_suffix A tol ''fx'' max_iter 1 [] res"
  using for_range_suffix[where tr = "\<lambda>(x, iters). iters"
      and body = "modified_secant_pass A f delta tol", OF modified_secant_pass_tested,
      of max_iter 1 "(x0, [])" res] assms
  by (simp add: modified_secant_method_def)

lemmas method_suffix =
  bisection_method_suffix regula_falsi_method_suffix secant_method_suffix
  newton_raphson_method_suffix fixed_point_method_suffix modified_secant_method_suffix

section \<open>One trace entry per pass\<close>

text \<open>
  Claim C8. Every algorithm appends exactly one entry to the trace in each loop pass, before
  the convergence test of that pass, the converging pass included. Hence on every successful
  run of any of the six methods the number of entries of the trace equals
  \<^verbatim>\<open>total_iterations\<close>, and the entries carry the pass numbers \<open>1, \<dots>, n\<close> in order. This
  holds whatever the arithmetic \<open>A\<close> computes.
\<close>

theorem one_record_per_pass:
  "(bisection_method A f a b tol max_iter = Inr res \<longrightarrow> indexed_trace res) \<and>
   (regula_falsi_method A f a b tol max_iter = Inr res \<longrightarrow> indexed_trace res) \<and>
   (secant_method A f x0 x1 tol max_iter = Inr res \<longrightarrow> indexed_trace res) \<and>
   (newton_raphson_method A f x0 tol max_iter = Inr res \<longrightarrow> indexed_trace res) \<and>
   (fixed_point_method A f g x0 tol max_iter = Inr res \<longrightarrow> indexed_trace res) \<and>
   (modified_secant_method A f x0 delta tol max_iter = Inr res \<longrightarrow> indexed_trace res)"
  by (intro conjI impI; erule method_suffix[THEN pass_suffix_indexed])

theorem one_record_per_pass_witness:
  "(case bisection_method (py no_rounding) (ex_linear (py no_rounding) (Fin 8) (Fin 3))
           (Fin 0) (Fin 1) (Fin (1/4)) 3 of Inr res \<Rightarrow> indexed_trace res | Inl e \<Rightarrow> False) \<and>
   (case regula_falsi_method (py no_rounding) (ex_quadratic (py no_rounding) (Fin 1))
           (Fin 0) (Fin 2) (Fin 1) 5 of Inr res \<Rightarrow> indexed_trace res | Inl e \<Rightarrow> False) \<and>
   (case secant_method (py no_rounding) (ex_quadratic (py no_rounding) (Fin 1))
           (Fin 0) (Fin 2) (Fin 1) 5 of Inr res \<Rightarrow> indexed_trace res | Inl e \<Rightarrow> False) \<and>
   (case newton_raphson_method (py no_rounding) ex_var
           (Fin (944473296573929 / 2 ^ 73)) (Fin (944473296573929 / 2 ^ 74)) 5
         of Inr res \<Rightarrow> indexed_trace res | Inl e \<Rightarrow> False) \<and>
   (case fixed_point_method (py no_rounding) (ex_linear (py no_rounding) (Fin 1) (Fin 1))
           (ex_shift_div (py no_rounding) (Fin 1) (Fin 2)) (Fin 0) (Fin (3/8)) 5
         of Inr res \<Rightarrow> indexed_trace res | Inl e \<Rightarrow> False) \<and>
   (case modified_secant_method (py no_rounding) (ex_linear (py no_rounding) (Fin 2) (Fin 1))
           (Fin 1) (Fin 1) (Fin (1/4)) 5 of Inr res \<Rightarrow> indexed_trace res | Inl e \<Rightarrow> False)"
proof -
  note T = one_record_per_pass
  note c1 = T[THEN conjunct1, THEN mp, OF run_bisection]
  note c2 = T[THEN conjunct2, THEN conjunct1, THEN mp, OF run_regula_falsi]
  note c3 = T[THEN conjunct2, THEN conjunct2, THEN conjunct1, THEN mp, OF run_secant]
  note c4 = T[THEN conjunct2, THEN conjunct2, THEN conjunct2, THEN conjunct1, THEN mp,
              OF run_newton_raphson]
  note c5 = T[THEN conjunct2, THEN conjunct2, THEN conjunct2, THEN conjunct2, THEN conjunct1,
              THEN mp, OF run_fixed_point]
  note c6 = T[THEN conjunct2, THEN conjunct2, THEN conjunct2, THEN conjunct2, THEN conjunct2,
              THEN mp, OF run_modified_secant]
  show ?thesis
    using c1 c2 c3 c4 c5 c6
    by (simp only: run_bisection run_regula_falsi run_secant run_newton_raphson
          run_fixed_point run_modified_secant sum.case simp_thms)
qed

section \<open>Regula falsi has no guard\<close>

lemma fsub_self: "finite_float v \<Longrightarrow> fsub rnd v v = Fin 0"
  by (cases v) (simp_all add: fsub_def fadd_def)

lemma regula_falsi_method_errors:
  "regula_falsi_method A f a b tol max_iter = Inl e \<Longrightarrow>
   e = ConvergenceError \<or> e = EvaluationError \<or> e = ZeroDivisionError"
proof -
  assume "regula_falsi_method A f a b tol max_iter = Inl e"
  then have "e = ConvergenceError \<or> (\<exists>j st'. regula_falsi_pass A f tol j st' = Raise e)"
    unfolding regula_falsi_method_def by (rule for_range_errors)
  then show ?thesis
  proof (elim disjE exE)
    fix j st'
    assume "regula_falsi_pass A f tol j st' = Raise e"
    from regula_falsi_pass_errors[OF this] show ?thesis by simp
  qed simp
qed

text \<open>
  Claim C7. Regula falsi makes no sign check before its loop: it never raises the precondition
  error, and with endpoints of the same sign, \<^verbatim>\<open>fa * fb > 0\<close>, it runs its first pass like
  any other (and returns from it when the stopping test holds there). The quotient
  \<^verbatim>\<open>(a * fb - b * fa) / (fb - fa)\<close> has no guard: a pass in which its divisor is zero ends the
  run in Python's division error, which is the case on doubles whenever \<open>f(a)\<close> and \<open>f(b)\<close>
  are the same finite value, and regula falsi never raises the singularity error. The first
  three parts hold whatever the arithmetic computes, the last for the doubles with any
  rounding.
\<close>

theorem regula_falsi_unguarded:
  "regula_falsi_method A f a b tol max_iter \<noteq> Inl PreconditionError \<and>
   regula_falsi_method A f a b tol max_iter \<noteq> Inl SingularityError \<and>
   (1 \<le> max_iter \<and> f a = Some fa \<and> f b = Some fb \<and> f_lt A (f_zero A) (f_mul A fa fb) \<and>
    f_div A (f_sub A (f_mul A a fb) (f_mul A b fa)) (f_sub A fb fa) = Some c \<and>
    f c = Some fc \<and> (f_lt A (f_abs A (f_sub A b a)) tol \<or> f_lt A (f_abs A fc) tol) \<longrightarrow>
      (\<exists>res. regula_falsi_method A f a b tol max_iter = Inr res \<and> total_iterations res = 1)) \<and>
   (i \<le> max_iter \<and> f a = Some fa \<and> f b = Some fb \<and>
    f_div A (f_sub A (f_mul A a fb) (f_mul A b fa)) (f_sub A fb fa) = None \<longrightarrow>
      for_range (regula_falsi_pass A f tol) max_iter i (a, b, c_old, iters) =
        Inl ZeroDivisionError) \<and>
   (j \<le> n \<and> g u = Some v \<and> g w = Some v \<and> finite_float v \<longrightarrow>
      for_range (regula_falsi_pass (py rnd) g eps) n j (u, w, w_old, tr) =
        Inl ZeroDivisionError)"
proof (intro conjI)
  show "regula_falsi_method A f a b tol max_iter \<noteq> Inl PreconditionError"
    by (auto dest: regula_falsi_method_errors)
  show "regula_falsi_method A f a b tol max_iter \<noteq> Inl SingularityError"
    by (auto dest: regula_falsi_method_errors)
  show "1 \<le> max_iter \<and> f a = Some fa \<and> f b = Some fb \<and> f_lt A (f_zero A) (f_mul A fa fb) \<and>
    f_div A (f_sub A (f_mul A a fb) (f_mul A b fa)) (f_sub A fb fa) = Some c \<and>
    f c = Some fc \<and> (f_lt A (f_abs A (f_sub A b a)) tol \<or> f_lt A (f_abs A fc) tol) \<longrightarrow>
      (\<exists>res. regula_falsi_method A f a b tol max_iter = Inr res \<and> total_iterations res = 1)"
    by (auto simp: regula_falsi_method_def for_range.simps[of _ max_iter 1] Let_def)
  show "i \<le> max_iter \<and> f a = Some fa \<and> f b = Some fb \<and>
    f_div A (f_sub A (f_mul A a fb) (f_mul A b fa)) (f_sub A fb fa) = None \<longrightarrow>
      for_range (regula_falsi_pass A f tol) max_iter i (a, b, c_old, iters) =
        Inl ZeroDivisionError"
    by (auto simp: for_range.simps[of _ max_iter i])
  show "j \<le> n \<and> g u = Some v \<and> g w = Some v \<and> finite_float v \<longrightarrow>
      for_range (regula_falsi_pass (py rnd) g eps) n j (u, w, w_old, tr) =
        Inl ZeroDivisionError"
    by (auto simp: for_range.simps[of _ n j] py_def fsub_self fdiv_def)
qed

theorem regula_falsi_unguarded_witness:
  "(case regula_falsi_method (py no_rounding) (ex_square_plus (py no_rounding) (Fin 1))
           (Fin 0) (Fin 1) (Fin 2) 100 of
      Inr res \<Rightarrow> total_iterations res = 1 | Inl e \<Rightarrow> False) \<and>
   for_range (regula_falsi_pass (py no_rounding) (ex_const (Fin 2)) (Fin 2)) 100 1
     (Fin 0, Fin 1, Fin 0, []) = Inl ZeroDivisionError \<and>
   for_range (regula_falsi_pass (py no_rounding) (ex_square_plus (py no_rounding) (Fin 1))
       (Fin (1/4))) 100 1 (Fin (- 1), Fin 1, Fin (- 1), []) = Inl ZeroDivisionError"
proof -
  let ?A = "py no_rounding"
  let ?f = "ex_square_plus ?A (Fin 1)"
  note T = regula_falsi_unguarded
  have "(1 :: int) \<le> 100 \<and> ?f (Fin 0) = Some (Fin 1) \<and> ?f (Fin 1) = Some (Fin 2) \<and>
        f_lt ?A (f_zero ?A) (f_mul ?A (Fin 1) (Fin 2)) \<and>
        f_div ?A (f_sub ?A (f_mul ?A (Fin 0) (Fin 2)) (f_mul ?A (Fin 1) (Fin 1)))
          (f_sub ?A (Fin 2) (Fin 1)) = Some (Fin (- 1)) \<and>
        ?f (Fin (- 1)) = Some (Fin 2) \<and>
        (f_lt ?A (f_abs ?A (f_sub ?A (Fin 1) (Fin 0))) (Fin 2) \<or>
         f_lt ?A (f_abs ?A (Fin 2)) (Fin 2))"
    by (simp add: float_simps example_simps)
  from T[THEN conjunct2, THEN conjunct2, THEN conjunct1, THEN mp, OF this]
  have 1: "case regula_falsi_method ?A ?f (Fin 0) (Fin 1) (Fin 2) 100 of
             Inr res \<Rightarrow> total_iterations res = 1 | Inl e \<Rightarrow> False"
    by auto
  have "(1 :: int) \<le> 100 \<and> ex_const (Fin 2) (Fin 0) = Some (Fin 2) \<and>
        ex_const (Fin 2) (Fin 1) = Some (Fin 2) \<and>
        f_div ?A (f_sub ?A (f_mul ?A (Fin 0) (Fin 2)) (f_mul ?A (Fin 1) (Fin 2)))
          (f_sub ?A (Fin 2) (Fin 2)) = None"
    by (simp add: float_simps example_simps)
  from T[THEN conjunct2, THEN conjunct2, THEN conjunct2, THEN conjunct1, THEN mp, OF this]
  have 2: "for_range (regula_falsi_pass ?A (ex_const (Fin 2)) (Fin 2)) 100 1
             (Fin 0, Fin 1, Fin 0, []) = Inl ZeroDivisionError" .
  have "(1 :: int) \<le> 100 \<and> ?f (Fin (- 1)) = Some (Fin 2) \<and> ?f (Fin 1) = Some (Fin 2) \<and>
        finite_float (Fin 2)"
    by (simp add: float_simps example_simps)
  from T[where rnd = no_rounding, THEN conjunct2, THEN conjunct2, THEN conjunct2,
         THEN conjunct2, THEN mp, OF this]
  have 3: "for_range (regula_falsi_pass ?A ?f (Fin (1/4))) 100 1
             (Fin (- 1), Fin 1, Fin (- 1), []) = Inl ZeroDivisionError" .
  from 1 2 3 show ?thesis by simp
qed

section \<open>The stopping rule\<close>

text \<open>
  Claim C2 as stated says that each method returns its result at the first pass
  that satisfies the stopping test. Fixed-point iteration on \<^verbatim>\<open>1/x - 1\<close> with
  \<^verbatim>\<open>g(x) = 1*x - 1\<close>, started at \<open>1.0\<close> with the tolerance \<open>0.5\<close>: the first pass satisfies the
  test, since \<open>f(1.0) = 0.0\<close>, and the run ends there, but in an error and not in a result,
  because the result is built from \<open>f\<close> at the new root \<open>g(1.0) = 0.0\<close>, where the expression
  divides by zero.
\<close>

theorem stopping_rule_counterexample:
  "ex_recip_minus (py no_rounding) (Fin 1) (Fin 1) (Fin 1) = Some (Fin 0) \<and>
   flt (fabs (Fin 0)) (Fin (1/2)) \<and>
   fixed_point_method (py no_rounding) (ex_recip_minus (py no_rounding) (Fin 1) (Fin 1))
     (ex_linear (py no_rounding) (Fin 1) (Fin 1)) (Fin 1) (Fin (1/2)) 100 =
     Inl EvaluationError"
  by (simp add: Let_def fixed_point_method_def for_range.simps float_simps example_simps)

text \<open>
  Claim C2, amended. Whenever one of the six methods returns a result, the stopping test
  \<^verbatim>\<open>error < tol or abs(v) < tol\<close> fails on every pass before the last and holds on the last,
  \<open>v\<close> being the function value that the pass records (\<^verbatim>\<open>fc\<close>, \<^verbatim>\<open>f1\<close> or \<^verbatim>\<open>fx\<close>). And every pass
  that gets as far as the test (its evaluations and divisions succeed and its guard does not
  fire) decides by it: if the test holds, the run ends in that pass, with the result for
  bisection and regula falsi and, for the four other methods, with the result if the
  expression evaluates at the new root and with the evaluation error if it does not; if the
  test fails, the loop goes on to the next pass. This holds whatever the arithmetic computes.
\<close>

theorem stopping_rule_first_pass:
  "(bisection_method A f a b tol max_iter = Inr res \<longrightarrow> stops_at_first A tol ''fc'' res) \<and>
   (regula_falsi_method A f a b tol max_iter = Inr res \<longrightarrow> stops_at_first A tol ''fc'' res) \<and>
   (secant_method A f x0 x1 tol max_iter = Inr res \<longrightarrow> stops_at_first A tol ''f1'' res) \<and>
   (newton_raphson_method A f x tol max_iter = Inr res \<longrightarrow> stops_at_first A tol ''fx'' res) \<and>
   (fixed_point_method A f g x tol max_iter = Inr res \<longrightarrow> stops_at_first A tol ''fx'' res) \<and>
   (modified_secant_method A f x delta tol max_iter = Inr res \<longrightarrow>
      stops_at_first A tol ''fx'' res) \<and>
   (i \<le> max_iter \<and> f_div A (f_add A a b) (f_two A) = Some c \<and> f c = Some fc \<and>
    f_div A (f_abs A (f_sub A b a)) (f_two A) = Some err \<longrightarrow>
      (if f_lt A err tol \<or> f_lt A (f_abs A fc) tol
       then \<exists>r. for_range (bisection_pass A f tol) max_iter i (a, b, fa, fb, iters) =
              Inr \<lparr>root_value = c, iterations = iters @ [r], total_iterations = i,
                   final_error = err, fx = fc\<rparr>
       else \<exists>r. for_range (bisection_pass A f tol) max_iter i (a, b, fa, fb, iters) =
              for_range (bisection_pass A f tol) max_iter (i + 1)
                (if f_lt A (f_mul A fa fc) (f_zero A) then (a, c, fa, fc, iters @ [r])
                 else (c, b, fc, fb, iters @ [r])))) \<and>
   (i \<le> max_iter \<and> f a = Some fa \<and> f b = Some fb \<and>
    f_div A (f_sub A (f_mul A a fb) (f_mul A b fa)) (f_sub A fb fa) = Some c \<and>
    f c = Some fc \<and>
    err = (if 1 < i then f_abs A (f_sub A c c_old) else f_abs A (f_sub A b a)) \<longrightarrow>
      (if f_lt A err tol \<or> f_lt A (f_abs A fc) tol
       then \<exists>r. for_range (regula_falsi_pass A f tol) max_iter i (a, b, c_old, iters) =
              Inr \<lparr>root_value = c, iterations = iters @ [r], total_iterations = i,
                   final_error = err, fx = fc\<rparr>
       else \<exists>r. for_range (regula_falsi_pass A f tol) max_iter i (a, b, c_old, iters) =
              for_range (regula_falsi_pass A f tol) max_iter (i + 1)
                (if f_lt A (f_mul A fa fc) (f_zero A) then (a, c, c, iters @ [r])
                 else (c, b, c, iters @ [r])))) \<and>
   (i \<le> max_iter \<and> f x0 = Some f0 \<and> f x1 = Some f1 \<and>
    \<not> f_lt A (f_abs A (f_sub A f1 f0)) (f_eps A) \<and>
    f_div A (f_mul A f1 (f_sub A x1 x0)) (f_sub A f1 f0) = Some q \<and>
    x2 = f_sub A x1 q \<and> err = f_abs A (f_sub A x2 x1) \<longrightarrow>
      (if f_lt A err tol \<or> f_lt A (f_abs A f1) tol
       then \<exists>r. for_range (secant_pass A f tol) max_iter i (x0, x1, iters) =
              (case f x2 of
                 None \<Rightarrow> Inl EvaluationError
               | Some f2 \<Rightarrow>
                   Inr \<lparr>root_value = x2, iterations = iters @ [r], total_iterations = i,
                        final_error = err, fx = f2\<rparr>)
       else \<exists>r. for_range (secant_pass A f tol) max_iter i (x0, x1, iters) =
              for_range (secant_pass A f tol) max_iter (i + 1) (x1, x2, iters @ [r]))) \<and>
   (i \<le> max_iter \<and> f x = Some fx_val \<and> derivative A f x (f_h A) = Inr fpx \<and>
    \<not> f_lt A (f_abs A fpx) (f_eps A) \<and> f_div A fx_val fpx = Some q \<and>
    x_new = f_sub A x q \<and> err = f_abs A (f_sub A x_new x) \<longrightarrow>
      (if f_lt A err tol \<or> f_lt A (f_abs A fx_val) tol
       then \<exists>r. for_range (newton_raphson_pass A f tol) max_iter i (x, iters) =
              (case f x_new of
                 None \<Rightarrow> Inl EvaluationError
               | Some f_new \<Rightarrow>
                   Inr \<lparr>root_value = x_new, iterations = iters @ [r], total_iterations = i,
                        final_error = err, fx = f_new\<rparr>)
       else \<exists>r. for_range (newton_raphson_pass A f tol) max_iter i (x, iters) =
              for_range (newton_raphson_pass A f tol) max_iter (i + 1)
                (x_new, iters @ [r]))) \<and>
   (i \<le> max_iter \<and> g x = Some g_x \<and> f x = Some fx_val \<and>
    err = f_abs A (f_sub A g_x x) \<longrightarrow>
      (if f_lt A err tol \<or> f_lt A (f_abs A fx_val) tol
       then \<exists>r. for_range (fixed_point_pass A f g tol) max_iter i (x, iters) =
              (case f g_x of
                 None \<Rightarrow> Inl EvaluationError
               | Some f_new \<Rightarrow>
                   Inr \<lparr>root_value = g_x, iterations = iters @ [r], total_iterations = i,
                        final_error = err, fx = f_new\<rparr>)
       else \<exists>r. for_range (fixed_point_pass A f g tol) max_iter i (x, iters) =
              for_range (fixed_point_pass A f g tol) max_iter (i + 1) (g_x, iters @ [r]))) \<and>
   (i \<le> max_iter \<and> f x = Some fx_val \<and> f (f_add A x (f_mul A delta x)) = Some fx_delta \<and>
    \<not> f_lt A (f_abs A (f_sub A fx_delta fx_val)) (f_eps A) \<and>
    f_div A (f_mul A fx_val (f_mul A delta x)) (f_sub A fx_delta fx_val) = Some q \<and>
    x_new = f_sub A x q \<and> err = f_abs A (f_sub A x_new x) \<longrightarrow>
      (if f_lt A err tol \<or> f_lt A (f_abs A fx_val) tol
       then \<exists>r. for_range (modified_secant_pass A f delta tol) max_iter i (x, iters) =
              (case f x_new of
                 None \<Rightarrow> Inl EvaluationError
               | Some f_new \<Rightarrow>
                   Inr \<lparr>root_value = x_new, iterations = iters @ [r], total_iterations = i,
                        final_error = err, fx = f_new\<rparr>)
       else \<exists>r. for_range (modified_secant_pass A f delta tol) max_iter i (x, iters) =
              for_range (modified_secant_pass A f delta tol) max_iter (i + 1)
                (x_new, iters @ [r])))"
proof (intro conjI)
  show "i \<le> max_iter \<and> f_div A (f_add A a b) (f_two A) = Some c \<and> f c = Some fc \<and>
    f_div A (f_abs A (f_sub A b a)) (f_two A) = Some err \<longrightarrow>
      (if f_lt A err tol \<or> f_lt A (f_abs A fc) tol
       then \<exists>r. for_range (bisection_pass A f tol) max_iter i (a, b, fa, fb, iters) =
              Inr \<lparr>root_value = c, iterations = iters @ [r], total_iterations = i,
                   final_error = err, fx = fc\<rparr>
       else \<exists>r. for_range (bisection_pass A f tol) max_iter i (a, b, fa, fb, iters) =
              for_range (bisection_pass A f tol) max_iter (i + 1)
                (if f_lt A (f_mul A fa fc) (f_zero A) then (a, c, fa, fc, iters @ [r])
                 else (c, b, fc, fb, iters @ [r])))"
    by (auto simp: for_range.simps[of _ max_iter i] Let_def)
  show "i \<le> max_iter \<and> f a = Some fa \<and> f b = Some fb \<and>
    f_div A (f_sub A (f_mul A a fb) (f_mul A b fa)) (f_sub A fb fa) = Some c \<and>
    f c = Some fc \<and>
    err = (if 1 < i then f_abs A (f_sub A c c_old) else f_abs A (f_sub A b a)) \<longrightarrow>
      (if f_lt A err tol \<or> f_lt A (f_abs A fc) tol
       then \<exists>r. for_range (regula_falsi_pass A f tol) max_iter i (a, b, c_old, iters) =
              Inr \<lparr>root_value = c, iterations = iters @ [r], total_iterations = i,
                   final_error = err, fx = fc\<rparr>
       else \<exists>r. for_range (regula_falsi_pass A f tol) max_iter i (a, b, c_old, iters) =
              for_range (regula_falsi_pass A f tol) max_iter (i + 1)
                (if f_lt A (f_mul A fa fc) (f_zero A) then (a, c, c, iters @ [r])
                 else (c, b, c, iters @ [r])))"
    by (auto simp: for_range.simps[of _ max_iter i] Let_def)
  show "i \<le> max_iter \<and> f x0 = Some f0 \<and> f x1 = Some f1 \<and>
    \<not> f_lt A (f_abs A (f_sub A f1 f0)) (f_eps A) \<and>
    f_div A (f_mul A f1 (f_sub A x1 x0)) (f_sub A f1 f0) = Some q \<and>
    x2 = f_sub A x1 q \<and> err = f_abs A (f_sub A x2 x1) \<longrightarrow>
      (if f_lt A err tol \<or> f_lt A (f_abs A f1) tol
       then \<exists>r. for_range (secant_pass A f tol) max_iter i (x0, x1, iters) =
              (case f x2 of
                 None \<Rightarrow> Inl EvaluationError
               | Some f2 \<Rightarrow>
                   Inr \<lparr>root_value = x2, iterations = iters @ [r], total_iterations = i,
                        final_error = err, fx = f2\<rparr>)
       else \<exists>r. for_range (secant_pass A f tol) max_iter i (x0, x1, iters) =
              for_range (secant_pass A f tol) max_iter (i + 1) (x1, x2, iters @ [r]))"
    by (auto simp: for_range.simps[of _ max_iter i] Let_def split: option.splits)
  show "i \<le> max_iter \<and> f x = Some fx_val \<and> derivative A f x (f_h A) = Inr fpx \<and>
    \<not> f_lt A (f_abs A fpx) (f_eps A) \<and> f_div A fx_val fpx = Some q \<and>
    x_new = f_sub A x q \<and> err = f_abs A (f_sub A x_new x) \<longrightarrow>
      (if f_lt A err tol \<or> f_lt A (f_abs A fx_val) tol
       then \<exists>r. for_range (newton_raphson_pass A f tol) max_iter i (x, iters) =
              (case f x_new of
                 None \<Rightarrow> Inl EvaluationError
               | Some f_new \<Rightarrow>
                   Inr \<lparr>root_value = x_new, iterations = iters @ [r], total_iterations = i,
                        final_error = err, fx = f_new\<rparr>)
       else \<exists>r. for_range (newton_raphson_pass A f tol) max_iter i (x, iters) =
              for_range (newton_raphson_pass A f tol) max_iter (i + 1)
                (x_new, iters @ [r]))"
    by (auto simp: for_range.simps[of _ max_iter i] Let_def split: option.splits)
  show "i \<le> max_iter \<and> g x = Some g_x \<and> f x = Some fx_val \<and>
    err = f_abs A (f_sub A g_x x) \<longrightarrow>
      (if f_lt A err tol \<or> f_lt A (f_abs A fx_val) tol
       then \<exists>r. for_range (fixed_point_pass A f g tol) max_iter i (x, iters) =
              (case f g_x of
                 None \<Rightarrow> Inl EvaluationError
               | Some f_new \<Rightarrow>
                   Inr \<lparr>root_value = g_x, iterations = iters @ [r], total_iterations = i,
                        final_error = err, fx = f_new\<rparr>)
       else \<exists>r. for_range (fixed_point_pass A f g tol) max_iter i (x, iters) =
              for_range (fixed_point_pass A f g tol) max_iter (i + 1) (g_x, iters @ [r]))"
    by (auto simp: for_range.simps[of _ max_iter i] Let_def split: option.splits)
  show "i \<le> max_iter \<and> f x = Some fx_val \<and> f (f_add A x (f_mul A delta x)) = Some fx_delta \<and>
    \<not> f_lt A (f_abs A (f_sub A fx_delta fx_val)) (f_eps A) \<and>
    f_div A (f_mul A fx_val (f_mul A delta x)) (f_sub A fx_delta fx_val) = Some q \<and>
    x_new = f_sub A x q \<and> err = f_abs A (f_sub A x_new x) \<longrightarrow>
      (if f_lt A err tol \<or> f_lt A (f_abs A fx_val) tol
       then \<exists>r. for_range (modified_secant_pass A f delta tol) max_iter i (x, iters) =
              (case f x_new of
                 None \<Rightarrow> Inl EvaluationError
               | Some f_new \<Rightarrow>
                   Inr \<lparr>root_value = x_new, iterations = iters @ [r], total_iterations = i,
                        final_error = err, fx = f_new\<rparr>)
       else \<exists>r. for_range (modified_secant_pass A f delta tol) max_iter i (x, iters) =
              for_range (modified_secant_pass A f delta tol) max_iter (i + 1)
                (x_new, iters @ [r]))"
    by (auto simp: for_range.simps[of _ max_iter i] Let_def split: option.splits)
qed (auto dest: method_suffix[THEN pass_suffix_stops])

theorem stopping_rule_first_pass_witness:
  "(case bisection_method (py no_rounding) (ex_linear (py no_rounding) (Fin 8) (Fin 3))
           (Fin 0) (Fin 1) (Fin (1/4)) 3
         of Inr res \<Rightarrow> stops_at_first (py no_rounding) (Fin (1/4)) ''fc'' res | Inl e \<Rightarrow> False) \<and>
   (case regula_falsi_method (py no_rounding) (ex_quadratic (py no_rounding) (Fin 1))
           (Fin 0) (Fin 2) (Fin 1) 5
         of Inr res \<Rightarrow> stops_at_first (py no_rounding) (Fin 1) ''fc'' res | Inl e \<Rightarrow> False) \<and>
   (case secant_method (py no_rounding) (ex_quadratic (py no_rounding) (Fin 1))
           (Fin 0) (Fin 2) (Fin 1) 5
         of Inr res \<Rightarrow> stops_at_first (py no_rounding) (Fin 1) ''f1'' res | Inl e \<Rightarrow> False) \<and>
   (case newton_raphson_method (py no_rounding) ex_var
           (Fin (944473296573929 / 2 ^ 73)) (Fin (944473296573929 / 2 ^ 74)) 5
         of Inr res \<Rightarrow> stops_at_first (py no_rounding) (Fin (944473296573929 / 2 ^ 74)) ''fx'' res | Inl e \<Rightarrow> False) \<and>
   (case fixed_point_method (py no_rounding) (ex_linear (py no_rounding) (Fin 1) (Fin 1))
           (ex_shift_div (py no_rounding) (Fin 1) (Fin 2)) (Fin 0) (Fin (3/8)) 5
         of Inr res \<Rightarrow> stops_at_first (py no_rounding) (Fin (3/8)) ''fx'' res | Inl e \<Rightarrow> False) \<and>
   (case modified_secant_method (py no_rounding) (ex_linear (py no_rounding) (Fin 2) (Fin 1))
           (Fin 1) (Fin 1) (Fin (1/4)) 5
         of Inr res \<Rightarrow> stops_at_first (py no_rounding) (Fin (1/4)) ''fx'' res | Inl e \<Rightarrow> False) \<and>
   (\<exists>r. for_range (bisection_pass (py no_rounding) (ex_linear (py no_rounding) (Fin 8) (Fin 3)) (Fin (1/4))) 3 1
           (Fin 0, Fin 1, Fin (- 3), Fin 5, []) =
         for_range (bisection_pass (py no_rounding) (ex_linear (py no_rounding) (Fin 8) (Fin 3)) (Fin (1/4))) 3 2
           (Fin 0, Fin (1/2), Fin (- 3), Fin 1, [r])) \<and>
   (\<exists>r. for_range (regula_falsi_pass (py no_rounding) (ex_quadratic (py no_rounding) (Fin 1)) (Fin 1)) 5 1
           (Fin 0, Fin 2, Fin 0, []) =
         for_range (regula_falsi_pass (py no_rounding) (ex_quadratic (py no_rounding) (Fin 1)) (Fin 1)) 5 2
           (Fin 1, Fin 2, Fin 1, [r])) \<and>
   (\<exists>r. for_range (secant_pass (py no_rounding) (ex_quadratic (py no_rounding) (Fin 1)) (Fin 1)) 5 2
           (Fin 2, Fin 1, []) =
         Inr \<lparr>root_value = Fin (3/2), iterations = [r], total_iterations = 2,
              final_error = Fin (1/2), fx = Fin (- (1/4))\<rparr>) \<and>
   (\<exists>r. for_range (newton_raphson_pass (py no_rounding) ex_var (Fin (944473296573929 / 2 ^ 74))) 5 1
           (Fin (944473296573929 / 2 ^ 73), []) =
         for_range (newton_raphson_pass (py no_rounding) ex_var (Fin (944473296573929 / 2 ^ 74))) 5 2
           (Fin 0, [r])) \<and>
   for_range (fixed_point_pass (py no_rounding) (ex_recip_minus (py no_rounding) (Fin 1) (Fin 1))
       (ex_linear (py no_rounding) (Fin 1) (Fin 1)) (Fin (1/2))) 100 1 (Fin 1, []) = Inl EvaluationError \<and>
   (\<exists>r. for_range (modified_secant_pass (py no_rounding) (ex_linear (py no_rounding) (Fin 2) (Fin 1)) (Fin 1)
           (Fin (1/4))) 5 2 (Fin (1/2), []) =
         Inr \<lparr>root_value = Fin (1/2), iterations = [r], total_iterations = 2,
              final_error = Fin 0, fx = Fin 0\<rparr>)"
proof -
  let ?P = "py no_rounding"
  note T = stopping_rule_first_pass
  note c1 = T[THEN conjunct1, THEN mp, OF run_bisection]
  note c2 = T[THEN conjunct2, THEN conjunct1, THEN mp, OF run_regula_falsi]
  note c3 = T[THEN conjunct2, THEN conjunct2, THEN conjunct1, THEN mp, OF run_secant]
  note c4 = T[THEN conjunct2, THEN conjunct2, THEN conjunct2, THEN conjunct1, THEN mp, OF run_newton_raphson]
  note c5 = T[THEN conjunct2, THEN conjunct2, THEN conjunct2, THEN conjunct2, THEN conjunct1, THEN mp, OF run_fixed_point]
  note c6 = T[THEN conjunct2, THEN conjunct2, THEN conjunct2, THEN conjunct2, THEN conjunct2, THEN conjunct1, THEN mp, OF run_modified_secant]
  have h1: "(1 :: int) \<le> 3 \<and> f_div ?P (f_add ?P (Fin 0) (Fin 1)) (f_two ?P) = Some (Fin (1/2)) \<and>
        ex_linear ?P (Fin 8) (Fin 3) (Fin (1/2)) = Some (Fin 1) \<and>
        f_div ?P (f_abs ?P (f_sub ?P (Fin 1) (Fin 0))) (f_two ?P) = Some (Fin (1/2))"
    by (simp add: float_simps example_simps derivative_def)
  note p1 = T[where A = "?P" and f = "ex_linear ?P (Fin 8) (Fin 3)"
      and tol = "Fin (1/4)" and fa = "Fin (- 3)" and fb = "Fin 5" and iters = "[]",
      THEN conjunct2, THEN conjunct2, THEN conjunct2, THEN conjunct2, THEN conjunct2, THEN conjunct2, THEN conjunct1, THEN mp, OF h1]
  have h2: "(1 :: int) \<le> 5 \<and> ex_quadratic ?P (Fin 1) (Fin 0) = Some (Fin (- 1)) \<and>
        ex_quadratic ?P (Fin 1) (Fin 2) = Some (Fin 1) \<and>
        f_div ?P (f_sub ?P (f_mul ?P (Fin 0) (Fin 1)) (f_mul ?P (Fin 2) (Fin (- 1))))
          (f_sub ?P (Fin 1) (Fin (- 1))) = Some (Fin 1) \<and>
        ex_quadratic ?P (Fin 1) (Fin 1) = Some (Fin (- 1)) \<and>
        Fin 2 = (if (1 :: int) < 1 then f_abs ?P (f_sub ?P (Fin 1) (Fin 0))
                 else f_abs ?P (f_sub ?P (Fin 2) (Fin 0)))"
    by (simp add: float_simps example_simps derivative_def)
  note p2 = T[where A = "?P" and f = "ex_quadratic ?P (Fin 1)"
      and tol = "Fin 1" and c_old = "Fin 0" and iters = "[]",
      THEN conjunct2, THEN conjunct2, THEN conjunct2, THEN conjunct2, THEN conjunct2, THEN conjunct2, THEN conjunct2, THEN conjunct1, THEN mp, OF h2]
  have h3: "(2 :: int) \<le> 5 \<and> ex_quadratic ?P (Fin 1) (Fin 2) = Some (Fin 1) \<and>
        ex_quadratic ?P (Fin 1) (Fin 1) = Some (Fin (- 1)) \<and>
        \<not> f_lt ?P (f_abs ?P (f_sub ?P (Fin (- 1)) (Fin 1))) (f_eps ?P) \<and>
        f_div ?P (f_mul ?P (Fin (- 1)) (f_sub ?P (Fin 1) (Fin 2)))
          (f_sub ?P (Fin (- 1)) (Fin 1)) = Some (Fin (- (1/2))) \<and>
        Fin (3/2) = f_sub ?P (Fin 1) (Fin (- (1/2))) \<and>
        Fin (1/2) = f_abs ?P (f_sub ?P (Fin (3/2)) (Fin 1))"
    by (simp add: float_simps example_simps derivative_def)
  note p3 = T[where A = "?P" and f = "ex_quadratic ?P (Fin 1)"
      and tol = "Fin 1" and iters = "[]",
      THEN conjunct2, THEN conjunct2, THEN conjunct2, THEN conjunct2, THEN conjunct2, THEN conjunct2, THEN conjunct2, THEN conjunct2, THEN conjunct1, THEN mp, OF h3]
  have h4: "(1 :: int) \<le> 5 \<and> ex_var (Fin (944473296573929 / 2 ^ 73)) = Some (Fin (944473296573929 / 2 ^ 73)) \<and>
        derivative ?P ex_var (Fin (944473296573929 / 2 ^ 73)) (f_h ?P) = Inr (Fin 1) \<and>
        \<not> f_lt ?P (f_abs ?P (Fin 1)) (f_eps ?P) \<and>
        f_div ?P (Fin (944473296573929 / 2 ^ 73)) (Fin 1) = Some (Fin (944473296573929 / 2 ^ 73)) \<and>
        Fin 0 = f_sub ?P (Fin (944473296573929 / 2 ^ 73)) (Fin (944473296573929 / 2 ^ 73)) \<and>
        Fin (944473296573929 / 2 ^ 73) = f_abs ?P (f_sub ?P (Fin 0) (Fin (944473296573929 / 2 ^ 73)))"
    by (simp add: float_simps example_simps derivative_def)
  note p4 = T[where A = "?P" and f = ex_var
      and tol = "Fin (944473296573929 / 2 ^ 74)" and iters = "[]",
      THEN conjunct2, THEN conjunct2, THEN conjunct2, THEN conjunct2, THEN conjunct2, THEN conjunct2, THEN conjunct2, THEN conjunct2, THEN conjunct2, THEN conjunct1, THEN mp, OF h4]
  have h5: "(1 :: int) \<le> 100 \<and> ex_linear ?P (Fin 1) (Fin 1) (Fin 1) = Some (Fin 0) \<and>
        ex_recip_minus ?P (Fin 1) (Fin 1) (Fin 1) = Some (Fin 0) \<and>
        Fin 1 = f_abs ?P (f_sub ?P (Fin 0) (Fin 1))"
    by (simp add: float_simps example_simps derivative_def)
  note p5 = T[where A = "?P" and f = "ex_recip_minus ?P (Fin 1) (Fin 1)" and g = "ex_linear ?P (Fin 1) (Fin 1)"
      and tol = "Fin (1/2)" and iters = "[]",
      THEN conjunct2, THEN conjunct2, THEN conjunct2, THEN conjunct2, THEN conjunct2, THEN conjunct2, THEN conjunct2, THEN conjunct2, THEN conjunct2, THEN conjunct2, THEN conjunct1, THEN mp, OF h5]
  have h6: "(2 :: int) \<le> 5 \<and> ex_linear ?P (Fin 2) (Fin 1) (Fin (1/2)) = Some (Fin 0) \<and>
        ex_linear ?P (Fin 2) (Fin 1) (f_add ?P (Fin (1/2)) (f_mul ?P (Fin 1) (Fin (1/2)))) =
          Some (Fin 1) \<and>
        \<not> f_lt ?P (f_abs ?P (f_sub ?P (Fin 1) (Fin 0))) (f_eps ?P) \<and>
        f_div ?P (f_mul ?P (Fin 0) (f_mul ?P (Fin 1) (Fin (1/2)))) (f_sub ?P (Fin 1) (Fin 0)) =
          Some (Fin 0) \<and>
        Fin (1/2) = f_sub ?P (Fin (1/2)) (Fin 0) \<and>
        Fin 0 = f_abs ?P (f_sub ?P (Fin (1/2)) (Fin (1/2)))"
    by (simp add: float_simps example_simps derivative_def)
  note p6 = T[where A = "?P" and f = "ex_linear ?P (Fin 2) (Fin 1)" and delta = "Fin 1"
      and tol = "Fin (1/4)" and iters = "[]",
      THEN conjunct2, THEN conjunct2, THEN conjunct2, THEN conjunct2, THEN conjunct2, THEN conjunct2, THEN conjunct2, THEN conjunct2, THEN conjunct2, THEN conjunct2, THEN conjunct2, THEN mp, OF h6]
  show ?thesis
  proof (intro conjI)
    show "case bisection_method ?P (ex_linear ?P (Fin 8) (Fin 3))
           (Fin 0) (Fin 1) (Fin (1/4)) 3
         of Inr res \<Rightarrow> stops_at_first ?P (Fin (1/4)) ''fc'' res | Inl e \<Rightarrow> False"
      using c1 by (simp only: run_bisection sum.case)
    show "case regula_falsi_method ?P (ex_quadratic ?P (Fin 1))
           (Fin 0) (Fin 2) (Fin 1) 5
         of Inr res \<Rightarrow> stops_at_first ?P (Fin 1) ''fc'' res | Inl e \<Rightarrow> False"
      using c2 by (simp only: run_regula_falsi sum.case)
    show "case secant_method ?P (ex_quadratic ?P (Fin 1))
           (Fin 0) (Fin 2) (Fin 1) 5
         of Inr res \<Rightarrow> stops_at_first ?P (Fin 1) ''f1'' res | Inl e \<Rightarrow> False"
      using c3 by (simp only: run_secant sum.case)
    show "case newton_raphson_method ?P ex_var
           (Fin (944473296573929 / 2 ^ 73)) (Fin (944473296573929 / 2 ^ 74)) 5
         of Inr res \<Rightarrow> stops_at_first ?P (Fin (944473296573929 / 2 ^ 74)) ''fx'' res | Inl e \<Rightarrow> False"
      using c4 by (simp only: run_newton_raphson sum.case)
    show "case fixed_point_method ?P (ex_linear ?P (Fin 1) (Fin 1))
           (ex_shift_div ?P (Fin 1) (Fin 2)) (Fin 0) (Fin (3/8)) 5
         of Inr res \<Rightarrow> stops_at_first ?P (Fin (3/8)) ''fx'' res | Inl e \<Rightarrow> False"
      using c5 by (simp only: run_fixed_point sum.case)
    show "case modified_secant_method ?P (ex_linear ?P (Fin 2) (Fin 1))
           (Fin 1) (Fin 1) (Fin (1/4)) 5
         of Inr res \<Rightarrow> stops_at_first ?P (Fin (1/4)) ''fx'' res | Inl e \<Rightarrow> False"
      using c6 by (simp only: run_modified_secant sum.case)
    show "(\<exists>r. for_range (bisection_pass ?P (ex_linear ?P (Fin 8) (Fin 3)) (Fin (1/4))) 3 1
           (Fin 0, Fin 1, Fin (- 3), Fin 5, []) =
         for_range (bisection_pass ?P (ex_linear ?P (Fin 8) (Fin 3)) (Fin (1/4))) 3 2
           (Fin 0, Fin (1/2), Fin (- 3), Fin 1, [r]))"
      using p1 by (simp add: float_simps example_simps)
    show "(\<exists>r. for_range (regula_falsi_pass ?P (ex_quadratic ?P (Fin 1)) (Fin 1)) 5 1
           (Fin 0, Fin 2, Fin 0, []) =
         for_range (regula_falsi_pass ?P (ex_quadratic ?P (Fin 1)) (Fin 1)) 5 2
           (Fin 1, Fin 2, Fin 1, [r]))"
      using p2 by (simp add: float_simps example_simps)
    show "(\<exists>r. for_range (secant_pass ?P (ex_quadratic ?P (Fin 1)) (Fin 1)) 5 2
           (Fin 2, Fin 1, []) =
         Inr \<lparr>root_value = Fin (3/2), iterations = [r], total_iterations = 2,
              final_error = Fin (1/2), fx = Fin (- (1/4))\<rparr>)"
      using p3 by (simp add: float_simps example_simps)
    show "(\<exists>r. for_range (newton_raphson_pass ?P ex_var (Fin (944473296573929 / 2 ^ 74))) 5 1
           (Fin (944473296573929 / 2 ^ 73), []) =
         for_range (newton_raphson_pass ?P ex_var (Fin (944473296573929 / 2 ^ 74))) 5 2
           (Fin 0, [r]))"
      using p4 by (simp add: float_simps example_simps)
    show "for_range (fixed_point_pass ?P (ex_recip_minus ?P (Fin 1) (Fin 1))
       (ex_linear ?P (Fin 1) (Fin 1)) (Fin (1/2))) 100 1 (Fin 1, []) = Inl EvaluationError"
      using p5 by (simp add: float_simps example_simps)
    show "(\<exists>r. for_range (modified_secant_pass ?P (ex_linear ?P (Fin 2) (Fin 1)) (Fin 1)
           (Fin (1/4))) 5 2 (Fin (1/2), []) =
         Inr \<lparr>root_value = Fin (1/2), iterations = [r], total_iterations = 2,
              final_error = Fin 0, fx = Fin 0\<rparr>)"
      using p6 by (simp add: float_simps example_simps)
  qed
qed

section \<open>The bound on the passes\<close>

lemma bisection_method_exhausted:
  "bisection_method A f a b tol max_iter = Inl ConvergenceError \<longleftrightarrow>
   (\<exists>fa fb. f a = Some fa \<and> f b = Some fb \<and> \<not> f_lt A (f_zero A) (f_mul A fa fb) \<and>
      passes_from (bisection_pass A f tol) 1 (nat max_iter) (a, b, fa, fb, []) \<noteq> None)"
proof -
  have nc: "\<And>i st. bisection_pass A f tol i st \<noteq> Raise ConvergenceError"
    by (auto dest: bisection_pass_errors)
  have n: "nat (max_iter + 1 - 1) = nat max_iter" by simp
  show ?thesis
    by (auto simp: bisection_method_def for_range_exhausted[OF nc] n split: option.splits)
qed

lemma regula_falsi_method_exhausted:
  "regula_falsi_method A f a b tol max_iter = Inl ConvergenceError \<longleftrightarrow>
   passes_from (regula_falsi_pass A f tol) 1 (nat max_iter) (a, b, a, []) \<noteq> None"
proof -
  have nc: "\<And>i st. regula_falsi_pass A f tol i st \<noteq> Raise ConvergenceError"
    by (auto dest: regula_falsi_pass_errors)
  have n: "nat (max_iter + 1 - 1) = nat max_iter" by simp
  show ?thesis
    unfolding regula_falsi_method_def for_range_exhausted[OF nc] n ..
qed

lemma secant_method_exhausted:
  "secant_method A f x0 x1 tol max_iter = Inl ConvergenceError \<longleftrightarrow>
   passes_from (secant_pass A f tol) 1 (nat max_iter) (x0, x1, []) \<noteq> None"
proof -
  have nc: "\<And>i st. secant_pass A f tol i st \<noteq> Raise ConvergenceError"
    by (auto dest: secant_pass_errors)
  have n: "nat (max_iter + 1 - 1) = nat max_iter" by simp
  show ?thesis
    unfolding secant_method_def for_range_exhausted[OF nc] n ..
qed

lemma newton_raphson_method_exhausted:
  "newton_raphson_method A f x tol max_iter = Inl ConvergenceError \<longleftrightarrow>
   passes_from (newton_raphson_pass A f tol) 1 (nat max_iter) (x, []) \<noteq> None"
proof -
  have nc: "\<And>i st. newton_raphson_pass A f tol i st \<noteq> Raise ConvergenceError"
    by (auto dest: newton_raphson_pass_errors)
  have n: "nat (max_iter + 1 - 1) = nat max_iter" by simp
  show ?thesis
    unfolding newton_raphson_method_def for_range_exhausted[OF nc] n ..
qed

lemma fixed_point_method_exhausted:
  "fixed_point_method A f g x tol max_iter = Inl ConvergenceError \<longleftrightarrow>
   passes_from (fixed_point_pass A f g tol) 1 (nat max_iter) (x, []) \<noteq> None"
proof -
  have nc: "\<And>i st. fixed_point_pass A f g tol i st \<noteq> Raise ConvergenceError"
    by (auto dest: fixed_point_pass_errors)
  have n: "nat (max_iter + 1 - 1) = nat max_iter" by simp
  show ?thesis
    unfolding fixed_point_method_def for_range_exhausted[OF nc] n ..
qed

lemma modified_secant_method_exhausted:
  "modified_secant_method A f x delta tol max_iter = Inl ConvergenceError \<longleftrightarrow>
   passes_from (modified_secant_pass A f delta tol) 1 (nat max_iter) (x, []) \<noteq> None"
proof -
  have nc: "\<And>i st. modified_secant_pass A f delta tol i st \<noteq> Raise ConvergenceError"
    by (auto dest: modified_secant_pass_errors)
  have n: "nat (max_iter + 1 - 1) = nat max_iter" by simp
  show ?thesis
    unfolding modified_secant_method_def for_range_exhausted[OF nc] n ..
qed

lemmas method_exhausted =
  bisection_method_exhausted regula_falsi_method_exhausted secant_method_exhausted
  newton_raphson_method_exhausted fixed_point_method_exhausted
  modified_secant_method_exhausted

lemma bisection_pass_goes_on:
  "bisection_pass A f tol i sb = Next (a1, b1, fa1, fb1, it1) \<longrightarrow>
   it1 \<noteq> [] \<and> rec_iteration (last it1) = Some i \<and>
   stop_rule A tol ''fc'' (last it1) = Some False"
  using bisection_pass_tested[of A tol i sb f] by (auto simp: pass_tested_def)

lemma regula_falsi_pass_goes_on:
  "regula_falsi_pass A f tol i sr = Next (a2, b2, c2, it2) \<longrightarrow>
   it2 \<noteq> [] \<and> rec_iteration (last it2) = Some i \<and>
   stop_rule A tol ''fc'' (last it2) = Some False"
  using regula_falsi_pass_tested[of A tol i sr f] by (auto simp: pass_tested_def)

lemma secant_pass_goes_on:
  "secant_pass A f tol i ss = Next (u3, v3, it3) \<longrightarrow>
   it3 \<noteq> [] \<and> rec_iteration (last it3) = Some i \<and>
   stop_rule A tol ''f1'' (last it3) = Some False"
  using secant_pass_tested[of A tol i ss f] by (auto simp: pass_tested_def)

lemma newton_raphson_pass_goes_on:
  "newton_raphson_pass A f tol i sn = Next (x4, it4) \<longrightarrow>
   it4 \<noteq> [] \<and> rec_iteration (last it4) = Some i \<and>
   stop_rule A tol ''fx'' (last it4) = Some False"
  using newton_raphson_pass_tested[of A tol i sn f] by (auto simp: pass_tested_def)

lemma fixed_point_pass_goes_on:
  "fixed_point_pass A f g tol i sf = Next (x5, it5) \<longrightarrow>
   it5 \<noteq> [] \<and> rec_iteration (last it5) = Some i \<and>
   stop_rule A tol ''fx'' (last it5) = Some False"
  using fixed_point_pass_tested[of A tol i sf f g] by (auto simp: pass_tested_def)

lemma modified_secant_pass_goes_on:
  "modified_secant_pass A f delta tol i sm = Next (x6, it6) \<longrightarrow>
   it6 \<noteq> [] \<and> rec_iteration (last it6) = Some i \<and>
   stop_rule A tol ''fx'' (last it6) = Some False"
  using modified_secant_pass_tested[of A tol i sm f delta] by (auto simp: pass_tested_def)

lemmas pass_goes_on =
  bisection_pass_goes_on regula_falsi_pass_goes_on secant_pass_goes_on
  newton_raphson_pass_goes_on fixed_point_pass_goes_on modified_secant_pass_goes_on

text \<open>
  Claim C4. For every method and every input, the iteration count of a returned result is at
  least 1 and at most \<^verbatim>\<open>max_iter\<close>. And a call fails to converge, so that it produces no
  result, exactly when the loop makes all its \<^verbatim>\<open>max_iter\<close> passes and each of them goes on to
  the next (for bisection: after the two endpoint evaluations and the sign check have been
  passed); a pass that goes on has appended its entry, on which the stopping test fails. This
  holds whatever the arithmetic computes.
\<close>

theorem iteration_count_bounded:
  "(bisection_method A f a b tol max_iter = Inr res \<longrightarrow>
      1 \<le> total_iterations res \<and> total_iterations res \<le> max_iter) \<and>
   (regula_falsi_method A f a b tol max_iter = Inr res \<longrightarrow>
      1 \<le> total_iterations res \<and> total_iterations res \<le> max_iter) \<and>
   (secant_method A f x0 x1 tol max_iter = Inr res \<longrightarrow>
      1 \<le> total_iterations res \<and> total_iterations res \<le> max_iter) \<and>
   (newton_raphson_method A f x tol max_iter = Inr res \<longrightarrow>
      1 \<le> total_iterations res \<and> total_iterations res \<le> max_iter) \<and>
   (fixed_point_method A f g x tol max_iter = Inr res \<longrightarrow>
      1 \<le> total_iterations res \<and> total_iterations res \<le> max_iter) \<and>
   (modified_secant_method A f x delta tol max_iter = Inr res \<longrightarrow>
      1 \<le> total_iterations res \<and> total_iterations res \<le> max_iter) \<and>
   (bisection_method A f a b tol max_iter = Inl ConvergenceError \<longleftrightarrow>
      (\<exists>fa fb. f a = Some fa \<and> f b = Some fb \<and> \<not> f_lt A (f_zero A) (f_mul A fa fb) \<and>
         passes_from (bisection_pass A f tol) 1 (nat max_iter) (a, b, fa, fb, []) \<noteq> None)) \<and>
   (regula_falsi_method A f a b tol max_iter = Inl ConvergenceError \<longleftrightarrow>
      passes_from (regula_falsi_pass A f tol) 1 (nat max_iter) (a, b, a, []) \<noteq> None) \<and>
   (secant_method A f x0 x1 tol max_iter = Inl ConvergenceError \<longleftrightarrow>
      passes_from (secant_pass A f tol) 1 (nat max_iter) (x0, x1, []) \<noteq> None) \<and>
   (newton_raphson_method A f x tol max_iter = Inl ConvergenceError \<longleftrightarrow>
      passes_from (newton_raphson_pass A f tol) 1 (nat max_iter) (x, []) \<noteq> None) \<and>
   (fixed_point_method A f g x tol max_iter = Inl ConvergenceError \<longleftrightarrow>
      passes_from (fixed_point_pass A f g tol) 1 (nat max_iter) (x, []) \<noteq> None) \<and>
   (modified_secant_method A f x delta tol max_iter = Inl ConvergenceError \<longleftrightarrow>
      passes_from (modified_secant_pass A f delta tol) 1 (nat max_iter) (x, []) \<noteq> None) \<and>
   (bisection_pass A f tol i sb = Next (a1, b1, fa1, fb1, it1) \<longrightarrow>
      it1 \<noteq> [] \<and> rec_iteration (last it1) = Some i \<and>
      stop_rule A tol ''fc'' (last it1) = Some False) \<and>
   (regula_falsi_pass A f tol i sr = Next (a2, b2, c2, it2) \<longrightarrow>
      it2 \<noteq> [] \<and> rec_iteration (last it2) = Some i \<and>
      stop_rule A tol ''fc'' (last it2) = Some False) \<and>
   (secant_pass A f tol i ss = Next (u3, v3, it3) \<longrightarrow>
      it3 \<noteq> [] \<and> rec_iteration (last it3) = Some i \<and>
      stop_rule A tol ''f1'' (last it3) = Some False) \<and>
   (newton_raphson_pass A f tol i sn = Next (x4, it4) \<longrightarrow>
      it4 \<noteq> [] \<and> rec_iteration (last it4) = Some i \<and>
      stop_rule A tol ''fx'' (last it4) = Some False) \<and>
   (fixed_point_pass A f g tol i sf = Next (x5, it5) \<longrightarrow>
      it5 \<noteq> [] \<and> rec_iteration (last it5) = Some i \<and>
      stop_rule A tol ''fx'' (last it5) = Some False) \<and>
   (modified_secant_pass A f delta tol i sm = Next (x6, it6) \<longrightarrow>
      it6 \<noteq> [] \<and> rec_iteration (last it6) = Some i \<and>
      stop_rule A tol ''fx'' (last it6) = Some False)"
  by (intro conjI;
      (rule method_exhausted | rule pass_goes_on |
       (rule impI, erule method_suffix[THEN pass_suffix_count])))

theorem iteration_count_bounded_witness:
  "(case bisection_method (py no_rounding) (ex_linear (py no_rounding) (Fin 8) (Fin 3))
       (Fin 0) (Fin 1) (Fin (1/4)) 3
     of Inr res \<Rightarrow> 1 \<le> total_iterations res \<and> total_iterations res \<le> 3 | Inl e \<Rightarrow> False) \<and>
   (case regula_falsi_method (py no_rounding) (ex_quadratic (py no_rounding) (Fin 1))
       (Fin 0) (Fin 2) (Fin 1) 5
     of Inr res \<Rightarrow> 1 \<le> total_iterations res \<and> total_iterations res \<le> 5 | Inl e \<Rightarrow> False) \<and>
   (case secant_method (py no_rounding) (ex_quadratic (py no_rounding) (Fin 1))
       (Fin 0) (Fin 2) (Fin 1) 5
     of Inr res \<Rightarrow> 1 \<le> total_iterations res \<and> total_iterations res \<le> 5 | Inl e \<Rightarrow> False) \<and>
   (case newton_raphson_method (py no_rounding) ex_var
       (Fin (944473296573929 / 2 ^ 73)) (Fin (944473296573929 / 2 ^ 74)) 5
     of Inr res \<Rightarrow> 1 \<le> total_iterations res \<and> total_iterations res \<le> 5 | Inl e \<Rightarrow> False) \<and>
   (case fixed_point_method (py no_rounding) (ex_linear (py no_rounding) (Fin 1) (Fin 1)) (ex_shift_div (py no_rounding) (Fin 1) (Fin 2))
       (Fin 0) (Fin (3/8)) 5
     of Inr res \<Rightarrow> 1 \<le> total_iterations res \<and> total_iterations res \<le> 5 | Inl e \<Rightarrow> False) \<and>
   (case modified_secant_method (py no_rounding) (ex_linear (py no_rounding) (Fin 2) (Fin 1))
       (Fin 1) (Fin 1) (Fin (1/4)) 5
     of Inr res \<Rightarrow> 1 \<le> total_iterations res \<and> total_iterations res \<le> 5 | Inl e \<Rightarrow> False) \<and>
   bisection_method (py no_rounding) (ex_linear (py no_rounding) (Fin 8) (Fin 3))
       (Fin 0) (Fin 1) (Fin (1/4)) 1 = Inl ConvergenceError \<and>
   regula_falsi_method (py no_rounding) (ex_quadratic (py no_rounding) (Fin 1))
       (Fin 0) (Fin 2) (Fin 1) 1 = Inl ConvergenceError \<and>
   secant_method (py no_rounding) (ex_quadratic (py no_rounding) (Fin 1))
       (Fin 0) (Fin 2) (Fin 1) 1 = Inl ConvergenceError \<and>
   newton_raphson_method (py no_rounding) ex_var
       (Fin (944473296573929 / 2 ^ 73)) (Fin (944473296573929 / 2 ^ 74)) 1 = Inl ConvergenceError \<and>
   fixed_point_method (py no_rounding) (ex_linear (py no_rounding) (Fin 1) (Fin 1)) (ex_shift_div (py no_rounding) (Fin 1) (Fin 2))
       (Fin 0) (Fin (3/8)) 1 = Inl ConvergenceError \<and>
   modified_secant_method (py no_rounding) (ex_linear (py no_rounding) (Fin 2) (Fin 1))
       (Fin 1) (Fin 1) (Fin (1/4)) 1 = Inl ConvergenceError \<and>
   stop_rule (py no_rounding) (Fin (1/4)) ''fc''
       [(''iteration'', Index 1), (''a'', Fixed8 (Fin 0)), (''b'', Fixed8 (Fin 1)),
         (''c'', Fixed8 (Fin (1/2))), (''fc'', Sci8 (Fin 1)), (''error'', Sci8 (Fin (1/2)))] = Some False \<and>
   stop_rule (py no_rounding) (Fin 1) ''fc''
       [(''iteration'', Index 1), (''a'', Fixed8 (Fin 0)), (''b'', Fixed8 (Fin 2)),
         (''c'', Fixed8 (Fin 1)), (''fc'', Sci8 (Fin (- 1))), (''error'', Sci8 (Fin 2))] = Some False \<and>
   stop_rule (py no_rounding) (Fin 1) ''f1''
       [(''iteration'', Index 1), (''x0'', Fixed8 (Fin 0)), (''x1'', Fixed8 (Fin 2)),
         (''f1'', Sci8 (Fin 1)), (''error'', Sci8 (Fin 1))] = Some False \<and>
   stop_rule (py no_rounding) (Fin (944473296573929 / 2 ^ 74)) ''fx''
       [(''iteration'', Index 1), (''x'', Fixed8 (Fin (944473296573929 / 2 ^ 73))),
         (''fx'', Sci8 (Fin (944473296573929 / 2 ^ 73))), (''fpx'', Sci8 (Fin 1)),
         (''error'', Sci8 (Fin (944473296573929 / 2 ^ 73)))] = Some False \<and>
   stop_rule (py no_rounding) (Fin (3/8)) ''fx''
       [(''iteration'', Index 1), (''x'', Fixed8 (Fin 0)), (''gx'', Fixed8 (Fin (1/2))),
         (''fx'', Sci8 (Fin (- 1))), (''error'', Sci8 (Fin (1/2)))] = Some False \<and>
   stop_rule (py no_rounding) (Fin (1/4)) ''fx''
       [(''iteration'', Index 1), (''x'', Fixed8 (Fin 1)), (''fx'', Sci8 (Fin 1)),
         (''fx_delta'', Sci8 (Fin 3)), (''error'', Sci8 (Fin (1/2)))] = Some False"
proof -
  let ?P = "py no_rounding"
  note T = iteration_count_bounded
  note a1 = T[THEN conjunct1, THEN mp, OF run_bisection]
  note a2 = T[THEN conjunct2, THEN conjunct1, THEN mp, OF run_regula_falsi]
  note a3 = T[THEN conjunct2, THEN conjunct2, THEN conjunct1, THEN mp, OF run_secant]
  note a4 = T[THEN conjunct2, THEN conjunct2, THEN conjunct2, THEN conjunct1, THEN mp, OF run_newton_raphson]
  note a5 = T[THEN conjunct2, THEN conjunct2, THEN conjunct2, THEN conjunct2, THEN conjunct1, THEN mp, OF run_fixed_point]
  note a6 = T[THEN conjunct2, THEN conjunct2, THEN conjunct2, THEN conjunct2, THEN conjunct2, THEN conjunct1, THEN mp, OF run_modified_secant]
  have "\<exists>fa fb. ex_linear ?P (Fin 8) (Fin 3) (Fin 0) = Some fa \<and> ex_linear ?P (Fin 8) (Fin 3) (Fin 1) = Some fb \<and>
          \<not> f_lt ?P (f_zero ?P) (f_mul ?P fa fb) \<and>
          passes_from (bisection_pass ?P (ex_linear ?P (Fin 8) (Fin 3)) (Fin (1/4))) 1 (nat 1) (Fin 0, Fin 1, fa, fb, []) \<noteq> None"
    by (simp add: Let_def float_simps example_simps)
  from T[THEN conjunct2, THEN conjunct2, THEN conjunct2, THEN conjunct2, THEN conjunct2, THEN conjunct2, THEN conjunct1, THEN iffD2, OF this]
  have b1: "bisection_method ?P (ex_linear ?P (Fin 8) (Fin 3))
       (Fin 0) (Fin 1) (Fin (1/4)) 1 = Inl ConvergenceError" .
  have "passes_from (regula_falsi_pass ?P (ex_quadratic ?P (Fin 1)) (Fin 1)) 1 (nat 1)
          (Fin 0, Fin 2, Fin 0, []) \<noteq> None"
    by (simp add: Let_def float_simps example_simps derivative_def)
  from T[THEN conjunct2, THEN conjunct2, THEN conjunct2, THEN conjunct2, THEN conjunct2, THEN conjunct2, THEN conjunct2, THEN conjunct1, THEN iffD2, OF this]
  have b2: "regula_falsi_method ?P (ex_quadratic ?P (Fin 1))
       (Fin 0) (Fin 2) (Fin 1) 1 = Inl ConvergenceError" .
  have "passes_from (secant_pass ?P (ex_quadratic ?P (Fin 1)) (Fin 1)) 1 (nat 1)
          (Fin 0, Fin 2, []) \<noteq> None"
    by (simp add: Let_def float_simps example_simps derivative_def)
  from T[THEN conjunct2, THEN conjunct2, THEN conjunct2, THEN conjunct2, THEN conjunct2, THEN conjunct2, THEN conjunct2, THEN conjunct2, THEN conjunct1, THEN iffD2, OF this]
  have b3: "secant_method ?P (ex_quadratic ?P (Fin 1))
       (Fin 0) (Fin 2) (Fin 1) 1 = Inl ConvergenceError" .
  have "passes_from (newton_raphson_pass ?P ex_var (Fin (944473296573929 / 2 ^ 74))) 1 (nat 1)
          (Fin (944473296573929 / 2 ^ 73), []) \<noteq> None"
    by (simp add: Let_def float_simps example_simps derivative_def)
  from T[THEN conjunct2, THEN conjunct2, THEN conjunct2, THEN conjunct2, THEN conjunct2, THEN conjunct2, THEN conjunct2, THEN conjunct2, THEN conjunct2, THEN conjunct1, THEN iffD2, OF this]
  have b4: "newton_raphson_method ?P ex_var
       (Fin (944473296573929 / 2 ^ 73)) (Fin (944473296573929 / 2 ^ 74)) 1 = Inl ConvergenceError" .
  have "passes_from (fixed_point_pass ?P (ex_linear ?P (Fin 1) (Fin 1)) (ex_shift_div ?P (Fin 1) (Fin 2)) (Fin (3/8))) 1 (nat 1)
          (Fin 0, []) \<noteq> None"
    by (simp add: Let_def float_simps example_simps derivative_def)
  from T[THEN conjunct2, THEN conjunct2, THEN conjunct2, THEN conjunct2, THEN conjunct2, THEN conjunct2, THEN conjunct2, THEN conjunct2, THEN conjunct2, THEN conjunct2, THEN conjunct1, THEN iffD2, OF this]
  have b5: "fixed_point_method ?P (ex_linear ?P (Fin 1) (Fin 1)) (ex_shift_div ?P (Fin 1) (Fin 2))
       (Fin 0) (Fin (3/8)) 1 = Inl ConvergenceError" .
  have "passes_from (modified_secant_pass ?P (ex_linear ?P (Fin 2) (Fin 1)) (Fin 1) (Fin (1/4))) 1 (nat 1)
          (Fin 1, []) \<noteq> None"
    by (simp add: Let_def float_simps example_simps derivative_def)
  from T[THEN conjunct2, THEN conjunct2, THEN conjunct2, THEN conjunct2, THEN conjunct2, THEN conjunct2, THEN conjunct2, THEN conjunct2, THEN conjunct2, THEN conjunct2, THEN conjunct2, THEN conjunct1, THEN iffD2, OF this]
  have b6: "modified_secant_method ?P (ex_linear ?P (Fin 2) (Fin 1))
       (Fin 1) (Fin 1) (Fin (1/4)) 1 = Inl ConvergenceError" .
  have "bisection_pass ?P (ex_linear ?P (Fin 8) (Fin 3)) (Fin (1/4)) 1
          (Fin 0, Fin 1, Fin (- 3), Fin 5, []) =
        Next (Fin 0, Fin (1/2), Fin (- 3), Fin 1,
          [[(''iteration'', Index 1), (''a'', Fixed8 (Fin 0)), (''b'', Fixed8 (Fin 1)),
            (''c'', Fixed8 (Fin (1/2))), (''fc'', Sci8 (Fin 1)), (''error'', Sci8 (Fin (1/2)))]])"
    by (simp add: Let_def float_simps example_simps derivative_def)
  note c1 = T[THEN conjunct2, THEN conjunct2, THEN conjunct2, THEN conjunct2, THEN conjunct2, THEN conjunct2, THEN conjunct2, THEN conjunct2, THEN conjunct2, THEN conjunct2, THEN conjunct2, THEN conjunct2, THEN conjunct1, THEN mp, OF this]
  have "regula_falsi_pass ?P (ex_quadratic ?P (Fin 1)) (Fin 1) 1
          (Fin 0, Fin 2, Fin 0, []) =
        Next (Fin 1, Fin 2, Fin 1,
          [[(''iteration'', Index 1), (''a'', Fixed8 (Fin 0)), (''b'', Fixed8 (Fin 2)),
            (''c'', Fixed8 (Fin 1)), (''fc'', Sci8 (Fin (- 1))), (''error'', Sci8 (Fin 2))]])"
    by (simp add: Let_def float_simps example_simps derivative_def)
  note c2 = T[THEN conjunct2, THEN conjunct2, THEN conjunct2, THEN conjunct2, THEN conjunct2, THEN conjunct2, THEN conjunct2, THEN conjunct2, THEN conjunct2, THEN conjunct2, THEN conjunct2, THEN conjunct2, THEN conjunct2, THEN conjunct1, THEN mp, OF this]
  have "secant_pass ?P (ex_quadratic ?P (Fin 1)) (Fin 1) 1
          (Fin 0, Fin 2, []) =
        Next (Fin 2, Fin 1,
          [[(''iteration'', Index 1), (''x0'', Fixed8 (Fin 0)), (''x1'', Fixed8 (Fin 2)),
            (''f1'', Sci8 (Fin 1)), (''error'', Sci8 (Fin 1))]])"
    by (simp add: Let_def float_simps example_simps derivative_def)
  note c3 = T[THEN conjunct2, THEN conjunct2, THEN conjunct2, THEN conjunct2, THEN conjunct2, THEN conjunct2, THEN conjunct2, THEN conjunct2, THEN conjunct2, THEN conjunct2, THEN conjunct2, THEN conjunct2, THEN conjunct2, THEN conjunct2, THEN conjunct1, THEN mp, OF this]
  have "newton_raphson_pass ?P ex_var (Fin (944473296573929 / 2 ^ 74)) 1
          (Fin (944473296573929 / 2 ^ 73), []) =
        Next (Fin 0,
          [[(''iteration'', Index 1), (''x'', Fixed8 (Fin (944473296573929 / 2 ^ 73))),
            (''fx'', Sci8 (Fin (944473296573929 / 2 ^ 73))), (''fpx'', Sci8 (Fin 1)),
            (''error'', Sci8 (Fin (944473296573929 / 2 ^ 73)))]])"
    by (simp add: Let_def float_simps example_simps derivative_def)
  note c4 = T[THEN conjunct2, THEN conjunct2, THEN conjunct2, THEN conjunct2, THEN conjunct2, THEN conjunct2, THEN conjunct2, THEN conjunct2, THEN conjunct2, THEN conjunct2, THEN conjunct2, THEN conjunct2, THEN conjunct2, THEN conjunct2, THEN conjunct2, THEN conjunct1, THEN mp, OF this]
  have "fixed_point_pass ?P (ex_linear ?P (Fin 1) (Fin 1)) (ex_shift_div ?P (Fin 1) (Fin 2)) (Fin (3/8)) 1
          (Fin 0, []) =
        Next (Fin (1/2),
          [[(''iteration'', Index 1), (''x'', Fixed8 (Fin 0)), (''gx'', Fixed8 (Fin (1/2))),
            (''fx'', Sci8 (Fin (- 1))), (''error'', Sci8 (Fin (1/2)))]])"
    by (simp add: Let_def float_simps example_simps derivative_def)
  note c5 = T[THEN conjunct2, THEN conjunct2, THEN conjunct2, THEN conjunct2, THEN conjunct2, THEN conjunct2, THEN conjunct2, THEN conjunct2, THEN conjunct2, THEN conjunct2, THEN conjunct2, THEN conjunct2, THEN conjunct2, THEN conjunct2, THEN conjunct2, THEN conjunct2, THEN conjunct1, THEN mp, OF this]
  have "modified_secant_pass ?P (ex_linear ?P (Fin 2) (Fin 1)) (Fin 1) (Fin (1/4)) 1
          (Fin 1, []) =
        Next (Fin (1/2),
          [[(''iteration'', Index 1), (''x'', Fixed8 (Fin 1)), (''fx'', Sci8 (Fin 1)),
            (''fx_delta'', Sci8 (Fin 3)), (''error'', Sci8 (Fin (1/2)))]])"
    by (simp add: Let_def float_simps example_simps derivative_def)
  note c6 = T[THEN conjunct2, THEN conjunct2, THEN conjunct2, THEN conjunct2, THEN conjunct2, THEN conjunct2, THEN conjunct2, THEN conjunct2, THEN conjunct2, THEN conjunct2, THEN conjunct2, THEN conjunct2, THEN conjunct2, THEN conjunct2, THEN conjunct2, THEN conjunct2, THEN conjunct2, THEN mp, OF this]
  show ?thesis
  proof (intro conjI)
    show "case bisection_method ?P (ex_linear ?P (Fin 8) (Fin 3))
       (Fin 0) (Fin 1) (Fin (1/4)) 3
     of Inr res \<Rightarrow> 1 \<le> total_iterations res \<and> total_iterations res \<le> 3 | Inl e \<Rightarrow> False"
      using a1 by (simp only: run_bisection sum.case simp_thms)
    show "case regula_falsi_method ?P (ex_quadratic ?P (Fin 1))
       (Fin 0) (Fin 2) (Fin 1) 5
     of Inr res \<Rightarrow> 1 \<le> total_iterations res \<and> total_iterations res \<le> 5 | Inl e \<Rightarrow> False"
      using a2 by (simp only: run_regula_falsi sum.case simp_thms)
    show "case secant_method ?P (ex_quadratic ?P (Fin 1))
       (Fin 0) (Fin 2) (Fin 1) 5
     of Inr res \<Rightarrow> 1 \<le> total_iterations res \<and> total_iterations res \<le> 5 | Inl e \<Rightarrow> False"
      using a3 by (simp only: run_secant sum.case simp_thms)
    show "case newton_raphson_method ?P ex_var
       (Fin (944473296573929 / 2 ^ 73)) (Fin (944473296573929 / 2 ^ 74)) 5
     of Inr res \<Rightarrow> 1 \<le> total_iterations res \<and> total_iterations res \<le> 5 | Inl e \<Rightarrow> False"
      using a4 by (simp only: run_newton_raphson sum.case simp_thms)
    show "case fixed_point_method ?P (ex_linear ?P (Fin 1) (Fin 1)) (ex_shift_div ?P (Fin 1) (Fin 2))
       (Fin 0) (Fin (3/8)) 5
     of Inr res \<Rightarrow> 1 \<le> total_iterations res \<and> total_iterations res \<le> 5 | Inl e \<Rightarrow> False"
      using a5 by (simp only: run_fixed_point sum.case simp_thms)
    show "case modified_secant_method ?P (ex_linear ?P (Fin 2) (Fin 1))
       (Fin 1) (Fin 1) (Fin (1/4)) 5
     of Inr res \<Rightarrow> 1 \<le> total_iterations res \<and> total_iterations res \<le> 5 | Inl e \<Rightarrow> False"
      using a6 by (simp only: run_modified_secant sum.case simp_thms)
    show "bisection_method ?P (ex_linear ?P (Fin 8) (Fin 3))
       (Fin 0) (Fin 1) (Fin (1/4)) 1 = Inl ConvergenceError"
      by (rule b1)
    show "regula_falsi_method ?P (ex_quadratic ?P (Fin 1))
       (Fin 0) (Fin 2) (Fin 1) 1 = Inl ConvergenceError"
      by (rule b2)
    show "secant_method ?P (ex_quadratic ?P (Fin 1))
       (Fin 0) (Fin 2) (Fin 1) 1 = Inl ConvergenceError"
      by (rule b3)
    show "newton_raphson_method ?P ex_var
       (Fin (944473296573929 / 2 ^ 73)) (Fin (944473296573929 / 2 ^ 74)) 1 = Inl ConvergenceError"
      by (rule b4)
    show "fixed_point_method ?P (ex_linear ?P (Fin 1) (Fin 1)) (ex_shift_div ?P (Fin 1) (Fin 2))
       (Fin 0) (Fin (3/8)) 1 = Inl ConvergenceError"
      by (rule b5)
    show "modified_secant_method ?P (ex_linear ?P (Fin 2) (Fin 1))
       (Fin 1) (Fin 1) (Fin (1/4)) 1 = Inl ConvergenceError"
      by (rule b6)
    show "stop_rule ?P (Fin (1/4)) ''fc''
       [(''iteration'', Index 1), (''a'', Fixed8 (Fin 0)), (''b'', Fixed8 (Fin 1)),
         (''c'', Fixed8 (Fin (1/2))), (''fc'', Sci8 (Fin 1)), (''error'', Sci8 (Fin (1/2)))] = Some False"
      using c1 by simp
    show "stop_rule ?P (Fin 1) ''fc''
       [(''iteration'', Index 1), (''a'', Fixed8 (Fin 0)), (''b'', Fixed8 (Fin 2)),
         (''c'', Fixed8 (Fin 1)), (''fc'', Sci8 (Fin (- 1))), (''error'', Sci8 (Fin 2))] = Some False"
      using c2 by simp
    show "stop_rule ?P (Fin 1) ''f1''
       [(''iteration'', Index 1), (''x0'', Fixed8 (Fin 0)), (''x1'', Fixed8 (Fin 2)),
         (''f1'', Sci8 (Fin 1)), (''error'', Sci8 (Fin 1))] = Some False"
      using c3 by simp
    show "stop_rule ?P (Fin (944473296573929 / 2 ^ 74)) ''fx''
       [(''iteration'', Index 1), (''x'', Fixed8 (Fin (944473296573929 / 2 ^ 73))),
         (''fx'', Sci8 (Fin (944473296573929 / 2 ^ 73))), (''fpx'', Sci8 (Fin 1)),
         (''error'', Sci8 (Fin (944473296573929 / 2 ^ 73)))] = Some False"
      using c4 by simp
    show "stop_rule ?P (Fin (3/8)) ''fx''
       [(''iteration'', Index 1), (''x'', Fixed8 (Fin 0)), (''gx'', Fixed8 (Fin (1/2))),
         (''fx'', Sci8 (Fin (- 1))), (''error'', Sci8 (Fin (1/2)))] = Some False"
      using c5 by simp
    show "stop_rule ?P (Fin (1/4)) ''fx''
       [(''iteration'', Index 1), (''x'', Fixed8 (Fin 1)), (''fx'', Sci8 (Fin 1)),
         (''fx_delta'', Sci8 (Fin 3)), (''error'', Sci8 (Fin (1/2)))] = Some False"
      using c6 by simp
  qed
qed

section \<open>Running a method twice\<close>






section \<open>Guards\<close>

subsection \<open>The sign check of bisection\<close>






subsection \<open>The guard of the secant method\<close>




subsection \<open>Modified secant started at zero\<close>









section \<open>The names an expression can reach\<close>







section \<open>Convergence of bisection\<close>













end
